theory Spec2Isabelle
  imports Complex_Main "HOL-Library.Product_Lexorder"
begin

section \<open>QuizX: scoring, answer validation, leaderboards and the live session\<close>

text \<open>
  The development embeds the scoring and ranking core of the quiz application:
  \<^item> \<^verbatim>\<open>app/routes/student.py\<close>: \<^verbatim>\<open>check_answer_correctness\<close>,
    \<^verbatim>\<open>calculate_question_points\<close>, the POST branch of \<^verbatim>\<open>attempt_quiz\<close> and the
    remaining-time computation of its GET branch, \<^verbatim>\<open>api_leaderboard\<close>,
    \<^verbatim>\<open>api_question_leaderboard\<close>;
  \<^item> \<^verbatim>\<open>app/services/scoring_service.py\<close> and \<^verbatim>\<open>app/services/leaderboard_service.py\<close>
    (the classes the routes import through \<^verbatim>\<open>app.services\<close>);
  \<^item> \<^verbatim>\<open>app/routes/leaderboard_service.py\<close> (a second \<^verbatim>\<open>LeaderboardService\<close> that no
    module imports);
  \<^item> \<^verbatim>\<open>app/routes/admin.py\<close>: \<^verbatim>\<open>live_control\<close>, \<^verbatim>\<open>handle_admin_next_question\<close>,
    \<^verbatim>\<open>clear_quiz_session_data\<close>, \<^verbatim>\<open>delete_quiz\<close>;
  \<^item> \<^verbatim>\<open>app/routes/quiz_data_utils.py\<close>: \<^verbatim>\<open>clear_student_quiz_data\<close>,
    \<^verbatim>\<open>cleanup_old_partial_answers\<close>;
  \<^item> \<^verbatim>\<open>app/sockets/quiz_events.py\<close>: \<^verbatim>\<open>admin_next_question\<close>.

  Conventions. Python floats are modelled by exact rationals (\<^typ>\<open>rat\<close>), Python's
  unbounded integers by \<^typ>\<open>int\<close>, timestamps (\<^verbatim>\<open>time.time()\<close>, \<^verbatim>\<open>now_utc()\<close>) by rational
  seconds. A database table is the list of its rows in insertion order; a query without
  \<^verbatim>\<open>ORDER BY\<close> returns the rows in that order and \<^verbatim>\<open>ORDER BY\<close> is a stable sort of it
  (SQL leaves the order of ties open; the model fixes it). A column holds the value the
  code assigns to it: what a database engine does to a float stored in the integer column
  \<^verbatim>\<open>points\<close> is outside the model.
\<close>

subsection \<open>Python runtime\<close>

datatype py_error = TypeError

text \<open>Values produced by \<^verbatim>\<open>json.loads\<close>.\<close>

datatype json =
    JNull
  | JBool bool
  | JInt int
  | JFloat rat
  | JStr string
  | JList "json list"
  | JObj "(string \<times> json) list"

text \<open>
  Library functions the code calls and whose text is not part of the repository are
  parameters of the model: \<^verbatim>\<open>json.loads\<close> (\<open>None\<close> when it raises), \<^verbatim>\<open>str\<close> on a parsed
  value, \<^verbatim>\<open>str.strip\<close>, \<^verbatim>\<open>str.lower\<close>, \<^verbatim>\<open>re.sub('<.*?>', '', s)\<close> and
  \<^verbatim>\<open>round(x, 1)\<close>.
\<close>

record pylib =
  json_loads :: "string \<Rightarrow> json option"
  py_str :: "json \<Rightarrow> string"
  py_strip :: "string \<Rightarrow> string"
  py_lower :: "string \<Rightarrow> string"
  re_sub_tags :: "string \<Rightarrow> string"
  py_round1 :: "rat \<Rightarrow> rat"

text \<open>Iterating a parsed value (\<^verbatim>\<open>for ans in v\<close>): a list yields its elements, a string its
  characters, a dict its keys; anything else raises \<^verbatim>\<open>TypeError\<close>.\<close>

fun py_iter :: "json \<Rightarrow> py_error + json list" where
  "py_iter (JList xs) = Inr xs"
| "py_iter (JStr s) = Inr (map (\<lambda>c. JStr [c]) s)"
| "py_iter (JObj kvs) = Inr (map (\<lambda>kv. JStr (fst kv)) kvs)"
| "py_iter v = Inl TypeError"

text \<open>\<^verbatim>\<open>int(x)\<close> on a float truncates towards zero.\<close>

definition py_int :: "rat \<Rightarrow> int" where
  "py_int x = (if 0 \<le> x then \<lfloor>x\<rfloor> else \<lceil>x\<rceil>)"

subsection \<open>Data model (\<^verbatim>\<open>app/models\<close>)\<close>

text \<open>Only the columns the embedded functions read or write are kept. A nullable column
  whose \<open>NULL\<close> the code tests is an \<open>option\<close>; a Boolean column the code only tests for
  truth is a \<open>bool\<close> (\<open>NULL\<close> acts as false there); \<^verbatim>\<open>question_type\<close> is a string
  (\<open>NULL\<close> acts as any unknown type); the columns of \<^verbatim>\<open>partial_answer\<close>, which the
  submission endpoint always sets, are not optional.\<close>

record quiz =
  qz_id :: int
  has_timer :: bool
  overall_timer :: "int option"
  show_leaderboard_global :: "bool option"
  is_published :: bool
  is_active :: bool
  is_paused :: bool
  paused_seconds :: int

record question =
  qn_id :: int
  qn_quiz_id :: int
  question_type :: string
  correct_answers :: "string option"
  qn_points :: "rat option"
  time_limit :: "int option"
  show_leaderboard :: bool
  answer :: "string option"

record partial_answer =
  pa_quiz_id :: int
  pa_question_id :: int
  pa_student :: string
  pa_is_correct :: bool
  pa_time_taken :: int
  pa_points :: rat
  pa_submitted_at :: rat

record result =
  r_quiz_id :: int
  r_student :: string
  r_score :: int
  r_total :: int
  r_time_taken :: int
  r_total_points :: rat

subsection \<open>\<^verbatim>\<open>Question.get_correct_answers\<close>\<close>

definition get_correct_answers :: "pylib \<Rightarrow> question \<Rightarrow> json" where
  "get_correct_answers py q =
     (let fallback = (case answer q of
                        None \<Rightarrow> JList []
                      | Some a \<Rightarrow> if a = [] then JList [] else JList [JStr a])
      in case correct_answers q of
           None \<Rightarrow> fallback
         | Some s \<Rightarrow>
             if s = [] then fallback
             else (case json_loads py s of Some v \<Rightarrow> v | None \<Rightarrow> fallback))"

subsection \<open>Answer validator (\<^verbatim>\<open>student.py\<close>, \<^verbatim>\<open>check_answer_correctness\<close>)\<close>

definition strip_html_tags :: "pylib \<Rightarrow> string \<Rightarrow> string" where
  "strip_html_tags py html_text = (if html_text = [] then [] else re_sub_tags py html_text)"

text \<open>\<^verbatim>\<open>str(question.answer)\<close>: \<open>None\<close> prints as \<^verbatim>\<open>'None'\<close>.\<close>

definition str_of_answer :: "string option \<Rightarrow> string" where
  "str_of_answer a = (case a of None \<Rightarrow> ''None'' | Some s \<Rightarrow> s)"

text \<open>The submitted value of a checkbox question as a list: \<^verbatim>\<open>json.loads\<close> of the form
  field, wrapped in a list when it is not one.\<close>

definition as_list :: "json \<Rightarrow> json list" where
  "as_list v = (case v of JList xs \<Rightarrow> xs | _ \<Rightarrow> [v])"

text \<open>
  The form field \<^verbatim>\<open>selected_answer\<close> is a string or absent. The checkbox branch runs inside
  \<^verbatim>\<open>try ... except: return False\<close>, so a failing \<^verbatim>\<open>json.loads\<close> and a correct-answer value
  that cannot be iterated both give \<open>False\<close>; the other branches have no handler and the
  \<^verbatim>\<open>TypeError\<close> escapes.
\<close>

definition check_answer_correctness ::
  "pylib \<Rightarrow> question \<Rightarrow> string option \<Rightarrow> py_error + bool" where
  "check_answer_correctness py q selected_answer =
     (case selected_answer of
        None \<Rightarrow> Inr False
      | Some sel \<Rightarrow>
          if sel = [] \<or> sel = ''No Answer'' then Inr False
          else if question_type q = ''multiple-choice'' then
            (case py_iter (get_correct_answers py q) of
               Inl e \<Rightarrow> Inl e
             | Inr cs \<Rightarrow> Inr (py_strip py sel \<in> set (map (\<lambda>a. py_strip py (py_str py a)) cs)))
          else if question_type q = ''checkbox'' then
            (case json_loads py sel of
               None \<Rightarrow> Inr False
             | Some v \<Rightarrow>
                 (case py_iter (get_correct_answers py q) of
                    Inl e \<Rightarrow> Inr False
                  | Inr cs \<Rightarrow>
                      Inr (set (map (py_str py) (as_list v)) = set (map (py_str py) cs))))
          else if question_type q = ''short-answer'' \<or> question_type q = ''paragraph'' then
            (case py_iter (get_correct_answers py q) of
               Inl e \<Rightarrow> Inl e
             | Inr cs \<Rightarrow>
                 Inr (py_lower py (py_strip py (strip_html_tags py sel))
                        \<in> set (map (\<lambda>a. py_lower py (py_strip py (strip_html_tags py (py_str py a)))) cs)))
          else Inr (py_strip py sel = py_strip py (str_of_answer (answer q))))"

subsection \<open>Score calculators\<close>

text \<open>\<^verbatim>\<open>base_points = question.points or 1.0\<close>: unset or zero points count as \<open>1.0\<close>.\<close>

definition base_points :: "question \<Rightarrow> rat" where
  "base_points q = (case qn_points q of None \<Rightarrow> 1 | Some p \<Rightarrow> if p = 0 then 1 else p)"

text \<open>The chain of speed thresholds, shared by both calculators.\<close>

definition speed_multiplier :: "rat \<Rightarrow> rat" where
  "speed_multiplier time_ratio =
     (if time_ratio \<le> 3 / 10 then 3 / 2
      else if time_ratio \<le> 6 / 10 then 12 / 10
      else if time_ratio \<le> 9 / 10 then 1
      else 8 / 10)"

text \<open>\<^verbatim>\<open>quiz.has_timer and question.time_limit and question.time_limit > 0\<close>.\<close>

definition timed :: "bool \<Rightarrow> int option \<Rightarrow> bool" where
  "timed ht tlimit = (ht \<and> (case tlimit of None \<Rightarrow> False | Some l \<Rightarrow> l \<noteq> 0 \<and> l > 0))"

text \<open>\<^verbatim>\<open>student.py\<close>, \<^verbatim>\<open>calculate_question_points\<close>: the calculator of the submission path.\<close>

definition calculate_question_points :: "question \<Rightarrow> bool \<Rightarrow> int \<Rightarrow> quiz \<Rightarrow> rat" where
  "calculate_question_points q correct taken qz =
     (if \<not> correct then 0
      else if timed (has_timer qz) (time_limit q)
      then base_points q * speed_multiplier (of_int taken / of_int (the (time_limit q)))
      else base_points q)"

text \<open>\<^verbatim>\<open>ScoringService.calculate_points\<close>: \<^verbatim>\<open>base_points = 1\<close>, with the partial-credit
  branch for checkbox questions.\<close>

definition calculate_points ::
  "pylib \<Rightarrow> bool \<Rightarrow> int \<Rightarrow> int option \<Rightarrow> bool \<Rightarrow> string \<Rightarrow> int \<Rightarrow> int \<Rightarrow> rat" where
  "calculate_points py correct taken tlimit ht qtype correct_count total_correct =
     (if \<not> correct then 0
      else if qtype = ''checkbox'' \<and> total_correct > 1 then
        (if correct_count > 0
         then py_round1 py ((of_int correct_count / of_int total_correct) * 1)
         else 0)
      else if timed ht tlimit
      then 1 * speed_multiplier (of_int taken / of_int (the tlimit))
      else 1)"


subsection \<open>Rank bonus awarder (\<^verbatim>\<open>ScoringService.update_question_rank_bonuses\<close>)\<close>

text \<open>
  The rows of \<^verbatim>\<open>partial_answer\<close> are addressed by their position in the table. The query
  selects the correct answers of one question of one quiz, ordered by \<^verbatim>\<open>time_taken\<close>; the
  loop adds \<^verbatim>\<open>bonus_points[idx]\<close> to the first three of them, in place.
\<close>

definition correct_rows :: "int \<Rightarrow> int \<Rightarrow> partial_answer list \<Rightarrow> nat list" where
  "correct_rows quiz_id question_id tbl =
     filter (\<lambda>i. pa_quiz_id (tbl ! i) = quiz_id \<and> pa_question_id (tbl ! i) = question_id
                 \<and> pa_is_correct (tbl ! i)) [0..<length tbl]"

definition ranked_correct :: "int \<Rightarrow> int \<Rightarrow> partial_answer list \<Rightarrow> nat list" where
  "ranked_correct quiz_id question_id tbl =
     sort_key (\<lambda>i. pa_time_taken (tbl ! i)) (correct_rows quiz_id question_id tbl)"

definition bonus_points :: "rat list" where
  "bonus_points = [3, 2, 1]"

fun award :: "(nat \<times> rat) list \<Rightarrow> partial_answer list \<Rightarrow> partial_answer list" where
  "award [] tbl = tbl"
| "award ((i, bonus) # rest) tbl =
     award rest (tbl[i := (tbl ! i)\<lparr>pa_points := pa_points (tbl ! i) + bonus\<rparr>])"

definition update_question_rank_bonuses ::
  "int \<Rightarrow> int \<Rightarrow> partial_answer list \<Rightarrow> partial_answer list" where
  "update_question_rank_bonuses quiz_id question_id tbl =
     award (zip (take 3 (ranked_correct quiz_id question_id tbl)) bonus_points) tbl"

subsection \<open>The submission endpoint (\<^verbatim>\<open>student.py\<close>, \<^verbatim>\<open>attempt_quiz\<close>, POST)\<close>

record db =
  tbl_quiz :: "quiz list"
  tbl_question :: "question list"
  tbl_partial_answer :: "partial_answer list"
  tbl_result :: "result list"

text \<open>One POST request: the session's role and student name, the quiz id of the URL and the
  form fields after \<^verbatim>\<open>int(...)\<close> (a field that does not parse raises before any table is
  touched).\<close>

record submission =
  sub_role :: "string option"
  sub_student :: string
  sub_quiz_id :: int
  sub_qindex :: int
  sub_question_id :: int
  sub_selected_answer :: "string option"
  sub_time_taken :: int

text \<open>\<^verbatim>\<open>SubmitReply is_correct student_complete next_question show_leaderboard\<close> is the JSON
  reply of a processed submission; \<^verbatim>\<open>ServerError\<close> is an exception that leaves the handler.\<close>

datatype response =
    NotFound
  | RedirectAdminDashboard
  | RedirectWaitingRoom
  | QuizClosed string
  | ServerError py_error
  | SubmitReply bool bool "int option" bool

text \<open>\<^verbatim>\<open>Quiz.should_show_leaderboard(question)\<close> with a question object.\<close>

definition should_show_leaderboard :: "quiz \<Rightarrow> question \<Rightarrow> bool" where
  "should_show_leaderboard qz q =
     (if show_leaderboard_global qz \<noteq> Some True then False else show_leaderboard q)"

definition same_answer_key :: "int \<Rightarrow> int \<Rightarrow> string \<Rightarrow> partial_answer \<Rightarrow> bool" where
  "same_answer_key quiz_id question_id student a \<longleftrightarrow>
     pa_quiz_id a = quiz_id \<and> pa_question_id a = question_id \<and> pa_student a = student"

definition same_result_key :: "int \<Rightarrow> string \<Rightarrow> result \<Rightarrow> bool" where
  "same_result_key quiz_id student r \<longleftrightarrow> r_quiz_id r = quiz_id \<and> r_student r = student"

text \<open>The block under \<^verbatim>\<open>if is_last\<close>: aggregate the student's answers and add a
  \<^verbatim>\<open>Result\<close> unless one exists for the quiz and student.\<close>

definition complete_quiz ::
  "int \<Rightarrow> string \<Rightarrow> int \<Rightarrow> partial_answer list \<Rightarrow> result list \<Rightarrow> result list" where
  "complete_quiz quiz_id student total_questions answers rs =
     (let partials = filter (\<lambda>a. pa_quiz_id a = quiz_id \<and> pa_student a = student) answers;
          score = int (length (filter pa_is_correct partials));
          total_time = sum_list (map pa_time_taken partials);
          total_points = sum_list (map pa_points partials);
          existing = find (same_result_key quiz_id student) rs
      in case existing of
           Some r \<Rightarrow> rs
         | None \<Rightarrow> rs @ [\<lparr> r_quiz_id = quiz_id, r_student = student, r_score = score,
                             r_total = total_questions, r_time_taken = total_time,
                             r_total_points = total_points \<rparr>])"

definition attempt_quiz_post :: "pylib \<Rightarrow> rat \<Rightarrow> db \<Rightarrow> submission \<Rightarrow> response \<times> db" where
  "attempt_quiz_post py now d req =
     (if sub_role req = Some ''admin'' then (RedirectAdminDashboard, d)
      else case find (\<lambda>z. qz_id z = sub_quiz_id req) (tbl_quiz d) of
        None \<Rightarrow> (NotFound, d)
      | Some qz \<Rightarrow>
          if \<not> is_active qz then (RedirectWaitingRoom, d)
          else if \<not> is_published qz then (QuizClosed ''Quiz not available.'', d)
          else if is_paused qz then (QuizClosed ''Quiz is paused.'', d)
          else let qs = filter (\<lambda>q. qn_quiz_id q = sub_quiz_id req) (tbl_question d) in
          if qs = [] then (QuizClosed ''No questions added yet.'', d)
          else case find (\<lambda>q. qn_id q = sub_question_id req) (tbl_question d) of
            None \<Rightarrow> (NotFound, d)
          | Some cq \<Rightarrow>
              let kept = filter (\<lambda>a. \<not> same_answer_key (sub_quiz_id req) (sub_question_id req)
                                        (sub_student req) a) (tbl_partial_answer d)
              in case check_answer_correctness py cq (sub_selected_answer req) of
                Inl e \<Rightarrow> (ServerError e, d\<lparr>tbl_partial_answer := kept\<rparr>)
              | Inr ok \<Rightarrow>
                  let question_points =
                        calculate_question_points cq ok (sub_time_taken req) qz;
                      partial = \<lparr> pa_quiz_id = sub_quiz_id req,
                                  pa_question_id = sub_question_id req,
                                  pa_student = sub_student req,
                                  pa_is_correct = ok,
                                  pa_time_taken = sub_time_taken req,
                                  pa_points = question_points,
                                  pa_submitted_at = now \<rparr>;
                      answers = update_question_rank_bonuses (sub_quiz_id req)
                                  (sub_question_id req) (kept @ [partial]);
                      shown = should_show_leaderboard qz cq;
                      total_questions = int (length qs);
                      is_last = (sub_qindex req \<ge> total_questions - 1)
                  in if is_last
                     then (SubmitReply ok True None shown,
                           d\<lparr>tbl_partial_answer := answers,
                             tbl_result := complete_quiz (sub_quiz_id req) (sub_student req)
                                             total_questions answers (tbl_result d)\<rparr>)
                     else (SubmitReply ok False (Some (sub_qindex req + 1)) shown,
                           d\<lparr>tbl_partial_answer := answers\<rparr>))"

subsection \<open>Administrative deletions (\<^verbatim>\<open>admin.py\<close>)\<close>

text \<open>\<^verbatim>\<open>clear_quiz_session_data\<close> (run by \<^verbatim>\<open>start_quiz\<close>, \<^verbatim>\<open>reset_quiz\<close> and the
  \<^verbatim>\<open>admin_start_quiz\<close> socket event) and the table effects of \<^verbatim>\<open>delete_quiz\<close>.\<close>

definition clear_quiz_session_data :: "int \<Rightarrow> db \<Rightarrow> db" where
  "clear_quiz_session_data quiz_id d =
     d\<lparr>tbl_partial_answer := filter (\<lambda>a. pa_quiz_id a \<noteq> quiz_id) (tbl_partial_answer d)\<rparr>"

definition delete_quiz :: "int \<Rightarrow> db \<Rightarrow> db" where
  "delete_quiz quiz_id d =
     (case find (\<lambda>z. qz_id z = quiz_id) (tbl_quiz d) of
        None \<Rightarrow> d
      | Some qz \<Rightarrow>
          \<lparr> tbl_quiz = filter (\<lambda>z. qz_id z \<noteq> quiz_id) (tbl_quiz d),
            tbl_question = filter (\<lambda>q. qn_quiz_id q \<noteq> quiz_id) (tbl_question d),
            tbl_partial_answer = filter (\<lambda>a. pa_quiz_id a \<noteq> quiz_id) (tbl_partial_answer d),
            tbl_result = filter (\<lambda>r. r_quiz_id r \<noteq> quiz_id) (tbl_result d) \<rparr>)"

text \<open>\<^verbatim>\<open>app/routes/quiz_data_utils.py\<close>: two maintenance helpers that delete rows (no route
  calls them).\<close>

definition clear_student_quiz_data :: "int \<Rightarrow> string \<Rightarrow> db \<Rightarrow> db" where
  "clear_student_quiz_data quiz_id student_name d =
     d\<lparr>tbl_partial_answer :=
         filter (\<lambda>a. \<not> (pa_quiz_id a = quiz_id \<and> pa_student a = student_name))
           (tbl_partial_answer d),
       tbl_result := filter (\<lambda>r. \<not> same_result_key quiz_id student_name r) (tbl_result d)\<rparr>"

definition cleanup_old_partial_answers :: "rat \<Rightarrow> db \<Rightarrow> db" where
  "cleanup_old_partial_answers cutoff_date d =
     d\<lparr>tbl_partial_answer :=
         filter (\<lambda>a. \<not> pa_submitted_at a < cutoff_date) (tbl_partial_answer d)\<rparr>"

text \<open>The states of the tables the application can reach from a database without answers and
  results: by a POST to the submission endpoint, by the deletions, and by the authoring
  and lifecycle routes of \<^verbatim>\<open>admin.py\<close> (create, edit, publish, start, pause, resume,
  stop), which write the quiz and question tables only and are taken here as an
  arbitrary change of those two tables.\<close>

inductive reachable :: "pylib \<Rightarrow> db \<Rightarrow> bool" for py :: pylib where
  initial: "tbl_partial_answer d = [] \<Longrightarrow> tbl_result d = [] \<Longrightarrow> reachable py d"
| submit: "reachable py d \<Longrightarrow> reachable py (snd (attempt_quiz_post py now d req))"
| clear: "reachable py d \<Longrightarrow> reachable py (clear_quiz_session_data quiz_id d)"
| delete: "reachable py d \<Longrightarrow> reachable py (delete_quiz quiz_id d)"
| clear_student: "reachable py d \<Longrightarrow> reachable py (clear_student_quiz_data quiz_id student d)"
| cleanup: "reachable py d \<Longrightarrow> reachable py (cleanup_old_partial_answers cutoff d)"
| author: "reachable py d \<Longrightarrow> reachable py (d\<lparr>tbl_quiz := zs, tbl_question := qs\<rparr>)"

subsection \<open>Leaderboards\<close>

text \<open>
  \<^verbatim>\<open>GROUP BY partial_answer.student\<close> over the answers of one quiz: one group per student.
  SQL leaves the order of the groups open; the model lists them in the order of
  \<^const>\<open>remdups\<close>.
\<close>

definition answers_by_student :: "int \<Rightarrow> db \<Rightarrow> (string \<times> partial_answer list) list" where
  "answers_by_student quiz_id d =
     (let rows = filter (\<lambda>a. pa_quiz_id a = quiz_id) (tbl_partial_answer d)
      in map (\<lambda>s. (s, filter (\<lambda>a. pa_student a = s) rows)) (remdups (map pa_student rows)))"

text \<open>\<^verbatim>\<open>app/services/leaderboard_service.py\<close>, \<^verbatim>\<open>build_leaderboard_payload\<close>: the builder the
  routes import.\<close>

record payload_row =
  pl_student :: string
  pl_points :: int
  pl_correct :: int
  pl_incorrect :: int
  pl_time :: int
  pl_total :: int

definition build_leaderboard_payload :: "int \<Rightarrow> db \<Rightarrow> payload_row list" where
  "build_leaderboard_payload quiz_id d =
     (let total_questions = int (length (filter (\<lambda>q. qn_quiz_id q = quiz_id) (tbl_question d)))
      in map (\<lambda>(s, g).
                \<lparr> pl_student = s,
                  pl_points = py_int (sum_list (map pa_points g)),
                  pl_correct = int (length (filter pa_is_correct g)),
                  pl_incorrect = int (length (filter (\<lambda>a. \<not> pa_is_correct a) g)),
                  pl_time = sum_list (map pa_time_taken g),
                  pl_total = total_questions \<rparr>)
             (answers_by_student quiz_id d))"

text \<open>\<^verbatim>\<open>student.py\<close>, \<^verbatim>\<open>api_leaderboard\<close>: the endpoint checks the quiz-global flag itself
  and returns the builder's rows.\<close>

definition api_leaderboard :: "int \<Rightarrow> db \<Rightarrow> payload_row list" where
  "api_leaderboard quiz_id d =
     (case find (\<lambda>z. qz_id z = quiz_id) (tbl_quiz d) of
        None \<Rightarrow> []
      | Some qz \<Rightarrow>
          if show_leaderboard_global qz \<noteq> Some True then []
          else build_leaderboard_payload quiz_id d)"

text \<open>\<^verbatim>\<open>app/routes/leaderboard_service.py\<close>, \<^verbatim>\<open>build_leaderboard_payload\<close>: the builder with
  the flag check, the sort and the ranks. An entry is paired with its rank.\<close>

record lb_entry =
  lb_name :: string
  lb_points :: rat
  lb_correct :: int
  lb_avg_time :: int
  lb_time :: int
  lb_answered :: int
  lb_total_questions :: int

definition payload_entries :: "int \<Rightarrow> db \<Rightarrow> lb_entry list" where
  "payload_entries quiz_id d =
     (let total_questions = int (length (filter (\<lambda>q. qn_quiz_id q = quiz_id) (tbl_question d)))
      in map (\<lambda>(s, g).
                \<lparr> lb_name = s,
                  lb_points = sum_list (map pa_points g),
                  lb_correct = sum_list (map (\<lambda>a. if pa_is_correct a then 1 else 0) g),
                  lb_avg_time = py_int (of_int (sum_list (map pa_time_taken g)) / of_nat (length g)),
                  lb_time = sum_list (map pa_time_taken g),
                  lb_answered = int (length g),
                  lb_total_questions = total_questions \<rparr>)
             (answers_by_student quiz_id d))"

text \<open>\<^verbatim>\<open>payload.sort(key=lambda x: (-x['points'], -x['correct'], x['time']))\<close>: a stable sort
  on tuples compared lexicographically.\<close>

definition sort_payload :: "lb_entry list \<Rightarrow> lb_entry list" where
  "sort_payload = sort_key (\<lambda>e. (- lb_points e, - lb_correct e, lb_time e))"

definition add_ranks :: "'a list \<Rightarrow> (int \<times> 'a) list" where
  "add_ranks xs = zip (map (\<lambda>i. int i + 1) [0..<length xs]) xs"

definition build_leaderboard_payload_routes :: "int \<Rightarrow> db \<Rightarrow> (int \<times> lb_entry) list" where
  "build_leaderboard_payload_routes quiz_id d =
     (case find (\<lambda>z. qz_id z = quiz_id) (tbl_quiz d) of
        None \<Rightarrow> []
      | Some qz \<Rightarrow>
          if show_leaderboard_global qz \<noteq> Some True then []
          else add_ranks (sort_payload (payload_entries quiz_id d)))"

text \<open>\<^verbatim>\<open>app/services/leaderboard_service.py\<close>, \<^verbatim>\<open>get_question_leaderboard\<close>: the query
  (correct answers of the question, ordered, \<^verbatim>\<open>LIMIT 10\<close>) and the entries built from it.\<close>

definition question_leaderboard_answers :: "quiz \<Rightarrow> int \<Rightarrow> int \<Rightarrow> db \<Rightarrow> partial_answer list" where
  "question_leaderboard_answers qz quiz_id question_id d =
     (let rows = filter (\<lambda>a. pa_quiz_id a = quiz_id \<and> pa_question_id a = question_id
                             \<and> pa_is_correct a) (tbl_partial_answer d)
      in if has_timer qz
         then take 10 (sort_key (\<lambda>a. (pa_time_taken a, pa_submitted_at a)) rows)
         else take 10 (sort_key pa_submitted_at rows))"

record ql_entry =
  ql_rank :: int
  ql_student :: string
  ql_time_taken :: int
  ql_points :: rat

definition get_question_leaderboard :: "int \<Rightarrow> int \<Rightarrow> db \<Rightarrow> ql_entry list" where
  "get_question_leaderboard quiz_id question_id d =
     (case find (\<lambda>z. qz_id z = quiz_id) (tbl_quiz d) of
        None \<Rightarrow> []
      | Some qz \<Rightarrow>
          map (\<lambda>(i, a). \<lparr> ql_rank = int i + 1, ql_student = pa_student a,
                           ql_time_taken = pa_time_taken a, ql_points = pa_points a \<rparr>)
              (enumerate 0 (question_leaderboard_answers qz quiz_id question_id d)))"

text \<open>\<^verbatim>\<open>student.py\<close>, \<^verbatim>\<open>api_question_leaderboard\<close>: the \<^verbatim>\<open>leaderboard\<close> list of the reply.\<close>

definition api_question_leaderboard :: "int \<Rightarrow> int \<Rightarrow> db \<Rightarrow> ql_entry list" where
  "api_question_leaderboard quiz_id question_id d =
     (case find (\<lambda>z. qz_id z = quiz_id) (tbl_quiz d) of
        None \<Rightarrow> []
      | Some qz \<Rightarrow>
          if show_leaderboard_global qz \<noteq> Some True then []
          else if (case find (\<lambda>q. qn_id q = question_id) (tbl_question d) of
                     None \<Rightarrow> False | Some q \<Rightarrow> \<not> show_leaderboard q) then []
          else get_question_leaderboard quiz_id question_id d)"

text \<open>\<^verbatim>\<open>app/routes/leaderboard_service.py\<close>, \<^verbatim>\<open>get_question_leaderboard\<close>: the variant no
  module imports. It lists every answer of the question, correct ones first.\<close>

record ql_entry_routes =
  qr_rank :: int
  qr_name :: string
  qr_is_correct :: bool
  qr_time_taken :: int
  qr_points :: rat
  qr_submitted_at :: rat

definition get_question_leaderboard_routes :: "int \<Rightarrow> int \<Rightarrow> db \<Rightarrow> ql_entry_routes list" where
  "get_question_leaderboard_routes quiz_id question_id d =
     (case find (\<lambda>z. qz_id z = quiz_id) (tbl_quiz d) of
        None \<Rightarrow> []
      | Some qz \<Rightarrow>
          if show_leaderboard_global qz \<noteq> Some True then []
          else if (case find (\<lambda>q. qn_id q = question_id) (tbl_question d) of
                     None \<Rightarrow> False | Some q \<Rightarrow> \<not> show_leaderboard q) then []
          else
            map (\<lambda>(i, a). \<lparr> qr_rank = int i + 1, qr_name = pa_student a,
                             qr_is_correct = pa_is_correct a, qr_time_taken = pa_time_taken a,
                             qr_points = pa_points a, qr_submitted_at = pa_submitted_at a \<rparr>)
                (enumerate 0
                   (sort_key (\<lambda>a. (\<not> pa_is_correct a, pa_time_taken a))
                      (filter (\<lambda>a. pa_quiz_id a = quiz_id \<and> pa_question_id a = question_id)
                         (tbl_partial_answer d)))))"

subsection \<open>Live session state (\<^verbatim>\<open>app/extensions.py\<close>, \<^verbatim>\<open>quiz_state\<close>)\<close>

text \<open>
  \<^verbatim>\<open>quiz_state\<close> is a process-wide dict from quiz id to a dict with the key
  \<^verbatim>\<open>current_qindex\<close> (set wherever an entry is created) and the optional keys
  \<^verbatim>\<open>started_at\<close>, \<^verbatim>\<open>overall_timer\<close> (seconds) and \<^verbatim>\<open>overall_started_at\<close>.
\<close>

record session =
  current_qindex :: int
  started_at :: "rat option"
  ss_overall_timer :: "int option"
  overall_started_at :: "rat option"

type_synonym quiz_state = "int \<rightharpoonup> session"

text \<open>\<^verbatim>\<open>quiz.overall_timer and quiz.overall_timer > 0\<close>.\<close>

definition overall_timer_enabled :: "quiz \<Rightarrow> bool" where
  "overall_timer_enabled qz = (case overall_timer qz of None \<Rightarrow> False | Some m \<Rightarrow> m \<noteq> 0 \<and> m > 0)"

text \<open>\<^verbatim>\<open>admin.py\<close>, \<^verbatim>\<open>live_control\<close>: the pair
  \<^verbatim>\<open>(elapsed_seconds, remaining_seconds)\<close> handed to the host's template at time \<open>now\<close>.\<close>

definition live_control_timer :: "quiz \<Rightarrow> quiz_state \<Rightarrow> rat \<Rightarrow> int \<times> int" where
  "live_control_timer qz st now =
     (if has_timer qz \<and> is_active qz \<and> st (qz_id qz) \<noteq> None \<and> overall_timer_enabled qz
      then (case st (qz_id qz) of
              None \<Rightarrow> (0, 0)
            | Some s \<Rightarrow>
                (case overall_started_at s of
                   None \<Rightarrow> (0, 0)
                 | Some started \<Rightarrow>
                     if started = 0 then (0, 0)
                     else let elapsed_seconds =
                                py_int (now - started - of_int (paused_seconds qz));
                              total_seconds = the (overall_timer qz) * 60
                          in (elapsed_seconds, max 0 (total_seconds - elapsed_seconds))))
      else (0, 0))"

text \<open>\<^verbatim>\<open>student.py\<close>, \<^verbatim>\<open>attempt_quiz\<close> (GET): \<^verbatim>\<open>remaining_seconds\<close> handed to the
  participant's template, \<open>None\<close> when no overall timer runs.\<close>

definition attempt_quiz_remaining :: "quiz \<Rightarrow> quiz_state \<Rightarrow> rat \<Rightarrow> int option" where
  "attempt_quiz_remaining qz st now =
     (if has_timer qz \<and> (case overall_timer qz of None \<Rightarrow> False | Some m \<Rightarrow> m \<noteq> 0)
      then (case st (qz_id qz) of
              None \<Rightarrow> None
            | Some s \<Rightarrow>
                (case overall_started_at s of
                   None \<Rightarrow> None
                 | Some started \<Rightarrow>
                     let elapsed = py_int (now - started);
                         total_sec = the (overall_timer qz) * 60
                     in Some (max 0 (total_sec - elapsed))))
      else None)"

subsection \<open>Advancing the question (\<^verbatim>\<open>admin_next_question\<close> socket event)\<close>

text \<open>A room is named \<^verbatim>\<open>str(quiz_id)\<close> or \<^verbatim>\<open>f"quiz_{quiz_id}"\<close>. The events carry the new
  question index and the quiz id.\<close>

datatype room = Room int | Prefixed_room int

datatype event =
    Quiz_finished
  | Load_next_question int int
  | Next_question int int

text \<open>\<^verbatim>\<open>app/sockets/quiz_events.py\<close>, \<^verbatim>\<open>admin_next_question\<close>: the new \<^verbatim>\<open>quiz_state\<close> and
  the emitted events.\<close>

definition admin_next_question ::
  "db \<Rightarrow> quiz_state \<Rightarrow> int \<Rightarrow> quiz_state \<times> (event \<times> room) list" where
  "admin_next_question d st quiz_id =
     (let st1 = (case st quiz_id of
                   None \<Rightarrow> st(quiz_id \<mapsto> \<lparr> current_qindex = 0, started_at = None,
                                          ss_overall_timer = None, overall_started_at = None \<rparr>)
                 | Some s \<Rightarrow> st);
          total_questions = int (length (filter (\<lambda>q. qn_quiz_id q = quiz_id) (tbl_question d)));
          current_index = (case st1 quiz_id of None \<Rightarrow> 0 | Some s \<Rightarrow> current_qindex s)
      in if current_index \<ge> total_questions - 1
         then (st1, [(Quiz_finished, Room quiz_id)])
         else (st1(quiz_id \<mapsto> (the (st1 quiz_id))\<lparr>current_qindex := current_index + 1\<rparr>),
               [(Load_next_question (current_index + 1) quiz_id, Room quiz_id)]))"


text \<open>The index stored for a quiz, and a run of \<open>k\<close> advance events through the handler of
  \<^verbatim>\<open>quiz_events.py\<close>.\<close>

definition qindex_of :: "quiz_state \<Rightarrow> int \<Rightarrow> int" where
  "qindex_of st quiz_id = (case st quiz_id of None \<Rightarrow> 0 | Some s \<Rightarrow> current_qindex s)"

fun advance_times :: "nat \<Rightarrow> db \<Rightarrow> quiz_state \<Rightarrow> int \<Rightarrow> quiz_state" where
  "advance_times 0 d st quiz_id = st"
| "advance_times (Suc k) d st quiz_id =
     advance_times k d (fst (admin_next_question d st quiz_id)) quiz_id"

section \<open>Concrete runtime for examples\<close>

text \<open>
  A runtime instance on which the model is evaluated at concrete inputs: \<^verbatim>\<open>json.loads\<close>
  on the few strings the examples submit, \<^verbatim>\<open>str\<close> on JSON strings and on the integers
  \<open>1\<close> to \<open>3\<close>, and identity for the string helpers (the example strings carry no
  whitespace, markup or upper case).
\<close>

definition example_py :: pylib where
  "example_py = \<lparr>
     json_loads = (\<lambda>s. if s = ''[1, 2]'' then Some (JList [JInt 1, JInt 2])
                       else if s = ''[2, 1]'' then Some (JList [JInt 2, JInt 1])
                       else if s = ''[1]'' then Some (JList [JInt 1])
                       else if s = ''[1, 2, 3]'' then Some (JList [JInt 1, JInt 2, JInt 3])
                       else if s = ''[]'' then Some (JList [])
                       else None),
     py_str = (\<lambda>v. case v of
                       JStr s \<Rightarrow> s
                     | JInt i \<Rightarrow> (if i = 1 then ''1'' else if i = 2 then ''2''
                                  else if i = 3 then ''3'' else ''0'')
                     | _ \<Rightarrow> ''None''),
     py_strip = (\<lambda>s. s),
     py_lower = (\<lambda>s. s),
     re_sub_tags = (\<lambda>s. s),
     py_round1 = (\<lambda>x. of_int \<lfloor>x * 10 + 1 / 2\<rfloor> / 10) \<rparr>"

definition example_quiz :: quiz where
  "example_quiz = \<lparr> qz_id = 1, has_timer = True, overall_timer = Some 1,
     show_leaderboard_global = Some True, is_published = True, is_active = True,
     is_paused = False, paused_seconds = 30 \<rparr>"

definition example_checkbox :: question where
  "example_checkbox = \<lparr> qn_id = 7, qn_quiz_id = 1, question_type = ''checkbox'',
     correct_answers = Some ''[1, 2]'', qn_points = Some 2, time_limit = Some 10,
     show_leaderboard = True, answer = Some ''1'' \<rparr>"

definition example_answers :: "partial_answer list" where
  "example_answers =
    [\<lparr> pa_quiz_id = 1, pa_question_id = 7, pa_student = ''ann'', pa_is_correct = True,
       pa_time_taken = 5, pa_points = 2, pa_submitted_at = 100 \<rparr>,
     \<lparr> pa_quiz_id = 1, pa_question_id = 7, pa_student = ''bob'', pa_is_correct = True,
       pa_time_taken = 3, pa_points = 2, pa_submitted_at = 101 \<rparr>,
     \<lparr> pa_quiz_id = 1, pa_question_id = 7, pa_student = ''cid'', pa_is_correct = False,
       pa_time_taken = 1, pa_points = 0, pa_submitted_at = 102 \<rparr>,
     \<lparr> pa_quiz_id = 1, pa_question_id = 7, pa_student = ''dee'', pa_is_correct = True,
       pa_time_taken = 9, pa_points = 2, pa_submitted_at = 103 \<rparr>,
     \<lparr> pa_quiz_id = 1, pa_question_id = 7, pa_student = ''eve'', pa_is_correct = True,
       pa_time_taken = 7, pa_points = 2, pa_submitted_at = 104 \<rparr>]"

definition example_choice :: question where
  "example_choice = \<lparr> qn_id = 8, qn_quiz_id = 1, question_type = ''multiple-choice'',
     correct_answers = Some ''[1]'', qn_points = Some 1, time_limit = Some 0,
     show_leaderboard = True, answer = Some ''1'' \<rparr>"

definition example_db :: db where
  "example_db = \<lparr> tbl_quiz = [example_quiz], tbl_question = [example_checkbox, example_choice],
     tbl_partial_answer = [], tbl_result = [] \<rparr>"

text \<open>Participant \<open>ann\<close> answers the first question correctly, in 3 of 10 seconds, then the
  second and last one incorrectly, and sends that last request once more.\<close>

definition example_first :: submission where
  "example_first = \<lparr> sub_role = None, sub_student = ''ann'', sub_quiz_id = 1, sub_qindex = 0,
     sub_question_id = 7, sub_selected_answer = Some ''[1, 2]'', sub_time_taken = 3 \<rparr>"

definition example_last :: submission where
  "example_last = \<lparr> sub_role = None, sub_student = ''ann'', sub_quiz_id = 1, sub_qindex = 1,
     sub_question_id = 8, sub_selected_answer = Some ''2'', sub_time_taken = 4 \<rparr>"

definition example_db1 :: db where
  "example_db1 = snd (attempt_quiz_post example_py 100 example_db example_first)"

definition example_db2 :: db where
  "example_db2 = snd (attempt_quiz_post example_py 101 example_db1 example_last)"

definition example_db3 :: db where
  "example_db3 = snd (attempt_quiz_post example_py 102 example_db2 example_last)"



text \<open>A second quiz without per-question timing, and a database with answers to one question
  of each quiz: the five answers above for question 7 of the timed quiz, and for question 9
  of the untimed quiz a slow correct answer submitted first, a fast correct answer
  submitted second and an incorrect one.\<close>

definition example_untimed_quiz :: quiz where
  "example_untimed_quiz = \<lparr> qz_id = 2, has_timer = False, overall_timer = None,
     show_leaderboard_global = Some True, is_published = True, is_active = True,
     is_paused = False, paused_seconds = 0 \<rparr>"

definition example_untimed_question :: question where
  "example_untimed_question = \<lparr> qn_id = 9, qn_quiz_id = 2, question_type = ''multiple-choice'',
     correct_answers = Some ''[1]'', qn_points = Some 1, time_limit = Some 0,
     show_leaderboard = True, answer = Some ''1'' \<rparr>"

definition example_board_db :: db where
  "example_board_db = \<lparr> tbl_quiz = [example_quiz, example_untimed_quiz],
     tbl_question = [example_checkbox, example_choice, example_untimed_question],
     tbl_partial_answer = example_answers @
       [\<lparr> pa_quiz_id = 2, pa_question_id = 9, pa_student = ''ann'', pa_is_correct = True,
          pa_time_taken = 50, pa_points = 4, pa_submitted_at = 100 \<rparr>,
        \<lparr> pa_quiz_id = 2, pa_question_id = 9, pa_student = ''bob'', pa_is_correct = True,
          pa_time_taken = 40, pa_points = 3, pa_submitted_at = 101 \<rparr>,
        \<lparr> pa_quiz_id = 2, pa_question_id = 9, pa_student = ''cid'', pa_is_correct = False,
          pa_time_taken = 5, pa_points = 0, pa_submitted_at = 99 \<rparr>],
     tbl_result = [] \<rparr>"

text \<open>Two participants of the timed quiz with equal points (10) and equal correct counts
  (3): \<open>amy\<close> with total time 50 and \<open>ben\<close> with total time 40. In a second database the
  quiz-global leaderboard flag is unset.\<close>

definition example_totals_db :: db where
  "example_totals_db = \<lparr> tbl_quiz = [example_quiz],
     tbl_question = [example_checkbox, example_choice, example_choice\<lparr>qn_id := 10\<rparr>],
     tbl_partial_answer =
       [\<lparr> pa_quiz_id = 1, pa_question_id = 7, pa_student = ''amy'', pa_is_correct = True,
          pa_time_taken = 20, pa_points = 4, pa_submitted_at = 100 \<rparr>,
        \<lparr> pa_quiz_id = 1, pa_question_id = 7, pa_student = ''ben'', pa_is_correct = True,
          pa_time_taken = 10, pa_points = 4, pa_submitted_at = 101 \<rparr>,
        \<lparr> pa_quiz_id = 1, pa_question_id = 8, pa_student = ''amy'', pa_is_correct = True,
          pa_time_taken = 20, pa_points = 3, pa_submitted_at = 102 \<rparr>,
        \<lparr> pa_quiz_id = 1, pa_question_id = 8, pa_student = ''ben'', pa_is_correct = True,
          pa_time_taken = 10, pa_points = 3, pa_submitted_at = 103 \<rparr>,
        \<lparr> pa_quiz_id = 1, pa_question_id = 10, pa_student = ''amy'', pa_is_correct = True,
          pa_time_taken = 10, pa_points = 3, pa_submitted_at = 104 \<rparr>,
        \<lparr> pa_quiz_id = 1, pa_question_id = 10, pa_student = ''ben'', pa_is_correct = True,
          pa_time_taken = 20, pa_points = 3, pa_submitted_at = 105 \<rparr>],
     tbl_result = [] \<rparr>"

definition example_hidden_db :: db where
  "example_hidden_db =
     example_totals_db\<lparr>tbl_quiz := [example_quiz\<lparr>show_leaderboard_global := None\<rparr>]\<rparr>"

text \<open>The timed quiz has an overall timer of one minute and 30 accumulated paused seconds;
  its session started at time 1000. A quiz of five questions stands at the last index.\<close>

definition example_state :: quiz_state where
  "example_state = [1 \<mapsto> \<lparr> current_qindex = 0, started_at = Some 1000,
                            ss_overall_timer = Some 60, overall_started_at = Some 1000 \<rparr>]"



section \<open>Score calculator\<close>


lemma speed_multiplier_cases:
  "(r \<le> 3 / 10 \<longrightarrow> speed_multiplier r = 3 / 2) \<and>
   (3 / 10 < r \<and> r \<le> 6 / 10 \<longrightarrow> speed_multiplier r = 12 / 10) \<and>
   (6 / 10 < r \<and> r \<le> 9 / 10 \<longrightarrow> speed_multiplier r = 1) \<and>
   (9 / 10 < r \<longrightarrow> speed_multiplier r = 8 / 10)"
  by (simp add: speed_multiplier_def)




section \<open>Answer validator\<close>

lemma checkbox_never_raises:
  "question_type q = ''checkbox'' \<Longrightarrow> \<exists>b. check_answer_correctness py q sel = Inr b"
  by (auto simp: check_answer_correctness_def split: option.splits sum.splits)

text \<open>
  Claim C8. On a multi-select (checkbox) question the validator never raises, and it
  returns true exactly when the submitted form value is present, is neither empty nor the
  sentinel \<^verbatim>\<open>'No Answer'\<close>, parses as JSON, and the set of its selections (each printed with
  \<^verbatim>\<open>str\<close>) equals the set of the question's correct-answer markers (each printed with
  \<^verbatim>\<open>str\<close>). Hence a strict subset, a strict superset or any other partial overlap gives
  false, and so does an absent, empty or \<^verbatim>\<open>'No Answer'\<close> form value.
\<close>

theorem checkbox_exact_set_equality:
  "question_type q = ''checkbox'' \<longrightarrow>
     check_answer_correctness py q sel =
       Inr (\<exists>s v cs. sel = Some s \<and> s \<noteq> [] \<and> s \<noteq> ''No Answer'' \<and>
              json_loads py s = Some v \<and>
              py_iter (get_correct_answers py q) = Inr cs \<and>
              set (map (py_str py) (as_list v)) = set (map (py_str py) cs)) \<and>
     (sel = None \<or> sel = Some [] \<or> sel = Some ''No Answer'' \<longrightarrow>
        check_answer_correctness py q sel = Inr False) \<and>
     (\<forall>s v cs. sel = Some s \<and> json_loads py s = Some v \<and>
        py_iter (get_correct_answers py q) = Inr cs \<and>
        (set (map (py_str py) (as_list v)) \<subset> set (map (py_str py) cs) \<or>
         set (map (py_str py) cs) \<subset> set (map (py_str py) (as_list v))) \<longrightarrow>
        check_answer_correctness py q sel = Inr False)"
  by (auto simp: check_answer_correctness_def split: option.splits sum.splits)

theorem checkbox_exact_set_equality_witness:
  "question_type example_checkbox = ''checkbox'' \<and>
   check_answer_correctness example_py example_checkbox (Some ''[1, 2]'') = Inr True \<and>
   check_answer_correctness example_py example_checkbox (Some ''[2, 1]'') = Inr True \<and>
   check_answer_correctness example_py example_checkbox (Some ''[1]'') = Inr False \<and>
   check_answer_correctness example_py example_checkbox (Some ''[1, 2, 3]'') = Inr False \<and>
   check_answer_correctness example_py example_checkbox (Some ''[]'') = Inr False \<and>
   check_answer_correctness example_py example_checkbox (Some ''No Answer'') = Inr False \<and>
   check_answer_correctness example_py example_checkbox (Some []) = Inr False \<and>
   check_answer_correctness example_py example_checkbox None = Inr False"
proof -
  have t: "question_type example_checkbox = ''checkbox''"
    by code_simp
  have v: "check_answer_correctness example_py example_checkbox (Some ''[1, 2]'') = Inr True"
    "check_answer_correctness example_py example_checkbox (Some ''[2, 1]'') = Inr True"
    "check_answer_correctness example_py example_checkbox (Some ''[1, 2, 3]'') = Inr False"
    "check_answer_correctness example_py example_checkbox (Some ''[]'') = Inr False"
    by code_simp+
  have n: "check_answer_correctness example_py example_checkbox None = Inr False"
    using checkbox_exact_set_equality [of example_checkbox example_py None] t by simp
  have e: "check_answer_correctness example_py example_checkbox (Some []) = Inr False"
    using checkbox_exact_set_equality [of example_checkbox example_py "Some []"] t by simp
  have s: "check_answer_correctness example_py example_checkbox (Some ''No Answer'') = Inr False"
    using checkbox_exact_set_equality [of example_checkbox example_py "Some ''No Answer''"] t
    by simp
  have jl: "json_loads example_py ''[1]'' = Some (JList [JInt 1])"
    by code_simp
  have it: "py_iter (get_correct_answers example_py example_checkbox) = Inr [JInt 1, JInt 2]"
    by code_simp
  have sub: "set (map (py_str example_py) (as_list (JList [JInt 1])))
               \<subset> set (map (py_str example_py) [JInt 1, JInt 2])"
    by code_simp
  have p: "check_answer_correctness example_py example_checkbox (Some ''[1]'') = Inr False"
    using checkbox_exact_set_equality [of example_checkbox example_py "Some ''[1]''"] t jl it sub
    by blast
  show ?thesis using t n e s v p by simp
qed


section \<open>Rank bonus awarder\<close>


lemma length_award [simp]: "length (award ps tbl) = length tbl"
  by (induction ps tbl rule: award.induct) simp_all

lemma award_other:
  "i \<notin> fst ` set ps \<Longrightarrow> award ps tbl ! i = tbl ! i"
  by (induction ps tbl rule: award.induct) auto

lemma award_hit:
  "distinct (map fst ps) \<Longrightarrow> (i, b) \<in> set ps \<Longrightarrow> i < length tbl \<Longrightarrow>
   award ps tbl ! i = (tbl ! i)\<lparr>pa_points := pa_points (tbl ! i) + b\<rparr>"
proof (induction ps tbl rule: award.induct)
  case (1 tbl)
  then show ?case by simp
next
  case (2 j bonus rest tbl)
  show ?case
  proof (cases "(i, b) = (j, bonus)")
    case True
    with 2 have "i \<notin> fst ` set rest" by auto
    then show ?thesis using True 2(4) by (simp add: award_other)
  next
    case False
    with 2 have mem: "(i, b) \<in> set rest" and ne: "i \<noteq> j" by force+
    from 2 mem ne show ?thesis by simp
  qed
qed

lemma award_fields:
  "i < length tbl \<Longrightarrow> \<exists>p. award ps tbl ! i = (tbl ! i)\<lparr>pa_points := p\<rparr>"
proof (induction ps tbl rule: award.induct)
  case (1 tbl)
  have "tbl ! i = (tbl ! i)\<lparr>pa_points := pa_points (tbl ! i)\<rparr>" by simp
  then show ?case by (metis award.simps(1))
next
  case (2 j bonus rest tbl)
  then obtain p where p: "award rest (tbl[j := (tbl ! j)\<lparr>pa_points := pa_points (tbl ! j) + bonus\<rparr>]) ! i
      = ((tbl[j := (tbl ! j)\<lparr>pa_points := pa_points (tbl ! j) + bonus\<rparr>]) ! i)\<lparr>pa_points := p\<rparr>"
    by auto
  show ?case
  proof (cases "i = j")
    case True
    with p 2(2) show ?thesis by auto
  next
    case False
    with p show ?thesis by auto
  qed
qed

lemma correct_rows_award [simp]:
  "correct_rows qz qn (award ps tbl) = correct_rows qz qn tbl"
proof -
  have "\<And>i. i < length tbl \<Longrightarrow>
      (pa_quiz_id (award ps tbl ! i) = qz \<and> pa_question_id (award ps tbl ! i) = qn \<and> pa_is_correct (award ps tbl ! i))
    = (pa_quiz_id (tbl ! i) = qz \<and> pa_question_id (tbl ! i) = qn \<and> pa_is_correct (tbl ! i))"
  proof -
    fix i assume "i < length tbl"
    then obtain p where "award ps tbl ! i = (tbl ! i)\<lparr>pa_points := p\<rparr>"
      using award_fields by blast
    then show "(pa_quiz_id (award ps tbl ! i) = qz \<and> pa_question_id (award ps tbl ! i) = qn \<and> pa_is_correct (award ps tbl ! i))
    = (pa_quiz_id (tbl ! i) = qz \<and> pa_question_id (tbl ! i) = qn \<and> pa_is_correct (tbl ! i))" by simp
  qed
  then show ?thesis
    unfolding correct_rows_def length_award by (intro filter_cong refl) simp
qed

lemma set_correct_rows:
  "set (correct_rows qz qn tbl) =
     {i. i < length tbl \<and> pa_quiz_id (tbl ! i) = qz \<and> pa_question_id (tbl ! i) = qn \<and> pa_is_correct (tbl ! i)}"
  by (auto simp: correct_rows_def)

lemma distinct_correct_rows [simp]: "distinct (correct_rows qz qn tbl)"
  by (simp add: correct_rows_def)

lemma insort_key_agree:
  "f a = g a \<Longrightarrow> \<forall>x\<in>set xs. f x = g x \<Longrightarrow> insort_key f a xs = insort_key g a xs"
  by (induction xs) simp_all

lemma sort_key_agree:
  "\<forall>x\<in>set xs. f x = g x \<Longrightarrow> sort_key f xs = sort_key g xs"
proof (induction xs)
  case Nil
  then show ?case by simp
next
  case (Cons a xs)
  then have "sort_key f xs = sort_key g xs" by simp
  moreover have "insort_key f a (sort_key g xs) = insort_key g a (sort_key g xs)"
    using Cons.prems by (intro insort_key_agree) simp_all
  ultimately show ?case by simp
qed

lemma ranked_correct_award [simp]:
  "ranked_correct qz qn (award ps tbl) = ranked_correct qz qn tbl"
proof -
  have "\<And>i. i \<in> set (correct_rows qz qn tbl) \<Longrightarrow>
      pa_time_taken (award ps tbl ! i) = pa_time_taken (tbl ! i)"
  proof -
    fix i assume "i \<in> set (correct_rows qz qn tbl)"
    then have "i < length tbl" by (simp add: set_correct_rows)
    then obtain p where "award ps tbl ! i = (tbl ! i)\<lparr>pa_points := p\<rparr>"
      using award_fields by blast
    then show "pa_time_taken (award ps tbl ! i) = pa_time_taken (tbl ! i)" by simp
  qed
  then show ?thesis
    unfolding ranked_correct_def by (simp add: sort_key_agree)
qed


lemma ranked_correct_update [simp]:
  "ranked_correct qz qn (update_question_rank_bonuses qz' qn' tbl) = ranked_correct qz qn tbl"
  by (simp add: update_question_rank_bonuses_def)

lemma length_update [simp]:
  "length (update_question_rank_bonuses qz qn tbl) = length tbl"
  by (simp add: update_question_rank_bonuses_def)

lemma set_ranked_correct [simp]:
  "set (ranked_correct qz qn tbl) = set (correct_rows qz qn tbl)"
  by (simp add: ranked_correct_def)

lemma distinct_ranked_correct [simp]: "distinct (ranked_correct qz qn tbl)"
  by (simp add: ranked_correct_def)

lemma sorted_ranked_correct:
  "sorted (map (\<lambda>i. pa_time_taken (tbl ! i)) (ranked_correct qz qn tbl))"
  by (simp add: ranked_correct_def)

lemma top_below_rest:
  assumes "i \<in> set (take n (ranked_correct qz qn tbl))"
    and "j \<in> set (correct_rows qz qn tbl)"
    and "j \<notin> set (take n (ranked_correct qz qn tbl))"
  shows "pa_time_taken (tbl ! i) \<le> pa_time_taken (tbl ! j)"
proof -
  let ?r = "ranked_correct qz qn tbl"
  let ?f = "\<lambda>i. pa_time_taken (tbl ! i)"
  have "j \<in> set (take n ?r @ drop n ?r)" using assms(2) by simp
  with assms(3) have j: "j \<in> set (drop n ?r)" by (simp del: append_take_drop_id)
  have "sorted (map ?f (take n ?r @ drop n ?r))"
    using sorted_ranked_correct [of tbl qz qn] by simp
  then have "\<forall>x\<in>set (take n ?r). \<forall>y\<in>set (drop n ?r). ?f x \<le> ?f y"
    unfolding map_append sorted_append by auto
  with assms(1) j show ?thesis by blast
qed

lemma top_in_range:
  "i \<in> set (take n (ranked_correct qz qn tbl)) \<Longrightarrow> i < length tbl"
proof -
  assume "i \<in> set (take n (ranked_correct qz qn tbl))"
  then have "i \<in> set (correct_rows qz qn tbl)"
    using set_take_subset [of n "ranked_correct qz qn tbl"] by auto
  then show ?thesis by (simp add: set_correct_rows)
qed

lemma update_hit:
  assumes "k < length (take 3 (ranked_correct qz qn tbl))"
  shows "update_question_rank_bonuses qz qn tbl ! (take 3 (ranked_correct qz qn tbl) ! k) =
         (tbl ! (take 3 (ranked_correct qz qn tbl) ! k))
           \<lparr>pa_points := pa_points (tbl ! (take 3 (ranked_correct qz qn tbl) ! k)) + [3, 2, 1] ! k\<rparr>"
proof -
  let ?top = "take 3 (ranked_correct qz qn tbl)"
  let ?ps = "zip ?top bonus_points"
  have len: "length ?ps = length ?top" by (simp add: bonus_points_def)
  have fst: "map fst ?ps = ?top"
    by (simp add: map_fst_zip_take bonus_points_def min_def)
  have "distinct ?top" by (simp add: distinct_take)
  with fst have d: "distinct (map fst ?ps)" by simp
  have k3: "k < length bonus_points" using assms by (simp add: bonus_points_def)
  have "?ps ! k = (?top ! k, bonus_points ! k)" using assms k3 by (intro nth_zip)
  then have mem: "(?top ! k, bonus_points ! k) \<in> set ?ps"
    using assms len by (metis nth_mem)
  have "?top ! k < length tbl" using assms top_in_range nth_mem by blast
  from award_hit [OF d mem this] show ?thesis
    by (simp add: update_question_rank_bonuses_def bonus_points_def)
qed

lemma update_miss:
  assumes "i \<notin> set (take 3 (ranked_correct qz qn tbl))"
  shows "update_question_rank_bonuses qz qn tbl ! i = tbl ! i"
proof -
  have "fst ` set (zip (take 3 (ranked_correct qz qn tbl)) bonus_points)
          \<subseteq> set (take 3 (ranked_correct qz qn tbl))"
    by (auto dest: set_zip_leftD)
  with assms have "i \<notin> fst ` set (zip (take 3 (ranked_correct qz qn tbl)) bonus_points)"
    by blast
  then show ?thesis by (simp add: update_question_rank_bonuses_def award_other)
qed

text \<open>
  Claim C4. One invocation of the awarder adds \<open>+3\<close>, \<open>+2\<close> and \<open>+1\<close> to the stored points
  of the first, second and third correct answers of the question in ascending order of
  time taken (\<open>top\<close>: at most three rows, all of them correct answers of the question, no
  slower than any other correct answer; fewer than three correct answers give fewer
  bonuses) and leaves every other row, and every other column, unchanged. A second
  invocation on the result adds the same bonuses to the same rows again, so the fastest
  correct answer has gained \<open>6\<close> points after two invocations: the operation is not idempotent.
\<close>

theorem rank_bonus_award:
  "(let top = take 3 (ranked_correct qz qn tbl);
        once = update_question_rank_bonuses qz qn tbl;
        twice = update_question_rank_bonuses qz qn once
    in set (correct_rows qz qn tbl) =
         {i. i < length tbl \<and> pa_quiz_id (tbl ! i) = qz \<and> pa_question_id (tbl ! i) = qn
             \<and> pa_is_correct (tbl ! i)} \<and>
       distinct top \<and>
       set top \<subseteq> set (correct_rows qz qn tbl) \<and>
       length top = min 3 (length (correct_rows qz qn tbl)) \<and>
       sorted (map (\<lambda>i. pa_time_taken (tbl ! i)) top) \<and>
       (\<forall>i\<in>set top. \<forall>j\<in>set (correct_rows qz qn tbl) - set top.
          pa_time_taken (tbl ! i) \<le> pa_time_taken (tbl ! j)) \<and>
       length once = length tbl \<and>
       (\<forall>k<length top. once ! (top ! k) =
          (tbl ! (top ! k))\<lparr>pa_points := pa_points (tbl ! (top ! k)) + [3, 2, 1] ! k\<rparr>) \<and>
       (\<forall>i<length tbl. i \<notin> set top \<longrightarrow> once ! i = tbl ! i) \<and>
       length twice = length tbl \<and>
       (\<forall>k<length top. twice ! (top ! k) =
          (tbl ! (top ! k))\<lparr>pa_points := pa_points (tbl ! (top ! k)) + 2 * [3, 2, 1] ! k\<rparr>) \<and>
       (\<forall>i<length tbl. i \<notin> set top \<longrightarrow> twice ! i = tbl ! i) \<and>
       (top \<noteq> [] \<longrightarrow> pa_points (twice ! hd top) = pa_points (tbl ! hd top) + 6))"
proof -
  let ?top = "take 3 (ranked_correct qz qn tbl)"
  let ?once = "update_question_rank_bonuses qz qn tbl"
  let ?twice = "update_question_rank_bonuses qz qn ?once"
  have top': "take 3 (ranked_correct qz qn ?once) = ?top" by simp
  have a: "distinct ?top" by (simp add: distinct_take)
  have b: "set ?top \<subseteq> set (correct_rows qz qn tbl)"
    using set_take_subset [of 3 "ranked_correct qz qn tbl"] by simp
  have c: "length ?top = min 3 (length (correct_rows qz qn tbl))"
    by (simp add: ranked_correct_def min.commute)
  have d: "sorted (map (\<lambda>i. pa_time_taken (tbl ! i)) ?top)"
    using sorted_ranked_correct [of tbl qz qn] by (simp add: take_map [symmetric] sorted_wrt_take)
  have e: "\<forall>i\<in>set ?top. \<forall>j\<in>set (correct_rows qz qn tbl) - set ?top.
          pa_time_taken (tbl ! i) \<le> pa_time_taken (tbl ! j)"
    using top_below_rest by blast
  have f: "\<forall>k<length ?top. ?once ! (?top ! k) =
          (tbl ! (?top ! k))\<lparr>pa_points := pa_points (tbl ! (?top ! k)) + [3, 2, 1] ! k\<rparr>"
    using update_hit by blast
  have g: "\<forall>i<length tbl. i \<notin> set ?top \<longrightarrow> ?once ! i = tbl ! i"
    using update_miss by blast
  have h: "\<forall>k<length ?top. ?twice ! (?top ! k) =
          (tbl ! (?top ! k))\<lparr>pa_points := pa_points (tbl ! (?top ! k)) + 2 * [3, 2, 1] ! k\<rparr>"
  proof (intro allI impI)
    fix k assume k: "k < length ?top"
    then have k': "k < length (take 3 (ranked_correct qz qn ?once))" by simp
    from update_hit [OF k'] have "?twice ! (?top ! k) =
        (?once ! (?top ! k))\<lparr>pa_points := pa_points (?once ! (?top ! k)) + [3, 2, 1] ! k\<rparr>"
      by simp
    also have "?once ! (?top ! k) =
        (tbl ! (?top ! k))\<lparr>pa_points := pa_points (tbl ! (?top ! k)) + [3, 2, 1] ! k\<rparr>"
      using f k by blast
    finally show "?twice ! (?top ! k) =
          (tbl ! (?top ! k))\<lparr>pa_points := pa_points (tbl ! (?top ! k)) + 2 * [3, 2, 1] ! k\<rparr>"
      by simp
  qed
  have i: "\<forall>i<length tbl. i \<notin> set ?top \<longrightarrow> ?twice ! i = tbl ! i"
  proof (intro allI impI)
    fix i assume "i < length tbl" and n: "i \<notin> set ?top"
    then have "i \<notin> set (take 3 (ranked_correct qz qn ?once))" by simp
    from update_miss [OF this] have "?twice ! i = ?once ! i" .
    also from update_miss [OF n] have "?once ! i = tbl ! i" .
    finally show "?twice ! i = tbl ! i" .
  qed
  have j: "?top \<noteq> [] \<longrightarrow> pa_points (?twice ! hd ?top) = pa_points (tbl ! hd ?top) + 6"
  proof
    assume ne: "?top \<noteq> []"
    then have 0: "0 < length ?top" by blast
    have hd: "hd ?top = ?top ! 0" using ne by (simp add: hd_conv_nth)
    from h 0 have "?twice ! (?top ! 0) =
          (tbl ! (?top ! 0))\<lparr>pa_points := pa_points (tbl ! (?top ! 0)) + 2 * [3, 2, 1] ! 0\<rparr>"
      by blast
    then show "pa_points (?twice ! hd ?top) = pa_points (tbl ! hd ?top) + 6"
      unfolding hd by simp
  qed
  have s: "set (correct_rows qz qn tbl) =
         {i. i < length tbl \<and> pa_quiz_id (tbl ! i) = qz \<and> pa_question_id (tbl ! i) = qn
             \<and> pa_is_correct (tbl ! i)}"
    by (rule set_correct_rows)
  have l1: "length ?once = length tbl" by simp
  have l2: "length ?twice = length tbl" by simp
  show ?thesis
    unfolding Let_def by (intro conjI; fact)
qed

theorem rank_bonus_award_witness:
  "take 3 (ranked_correct 1 7 example_answers) = [1, 0, 4] \<and>
   map pa_points example_answers = [2, 2, 0, 2, 2] \<and>
   map pa_points (update_question_rank_bonuses 1 7 example_answers) = [4, 5, 0, 2, 3] \<and>
   pa_points (update_question_rank_bonuses 1 7
                (update_question_rank_bonuses 1 7 example_answers) ! 1) = 2 + 6 \<and>
   update_question_rank_bonuses 1 7 (update_question_rank_bonuses 1 7 example_answers) ! 3
     = example_answers ! 3"
proof -
  have top: "take 3 (ranked_correct 1 7 example_answers) = [1, 0, 4]"
    by code_simp
  have p: "map pa_points example_answers = [2, 2, 0, 2, 2]"
    by code_simp
  have o: "map pa_points (update_question_rank_bonuses 1 7 example_answers) = [4, 5, 0, 2, 3]"
    by code_simp
  have l: "length example_answers = 5"
    by code_simp
  have p1: "pa_points (example_answers ! 1) = 2"
    by code_simp
  from rank_bonus_award [of 1 7 example_answers]
  have "pa_points (update_question_rank_bonuses 1 7
                (update_question_rank_bonuses 1 7 example_answers) ! 1)
          = pa_points (example_answers ! 1) + 6"
    and "update_question_rank_bonuses 1 7 (update_question_rank_bonuses 1 7 example_answers) ! 3
          = example_answers ! 3"
    unfolding Let_def top l by simp_all
  with top p o p1 show ?thesis by simp
qed


section \<open>The submission endpoint\<close>


lemma attempt_quiz_post_processed:
  assumes "attempt_quiz_post py now d req = (SubmitReply ok c n s, d')"
  shows "\<exists>qz cq. find (\<lambda>z. qz_id z = sub_quiz_id req) (tbl_quiz d) = Some qz \<and>
           find (\<lambda>q. qn_id q = sub_question_id req) (tbl_question d) = Some cq \<and>
           check_answer_correctness py cq (sub_selected_answer req) = Inr ok \<and>
           tbl_partial_answer d' =
             update_question_rank_bonuses (sub_quiz_id req) (sub_question_id req)
               (filter (\<lambda>a. \<not> same_answer_key (sub_quiz_id req) (sub_question_id req)
                                (sub_student req) a) (tbl_partial_answer d)
                @ [\<lparr> pa_quiz_id = sub_quiz_id req, pa_question_id = sub_question_id req,
                      pa_student = sub_student req, pa_is_correct = ok,
                      pa_time_taken = sub_time_taken req,
                      pa_points = calculate_question_points cq ok (sub_time_taken req) qz,
                      pa_submitted_at = now \<rparr>]) \<and>
           tbl_result d' =
             (if c then complete_quiz (sub_quiz_id req) (sub_student req)
                          (int (length (filter (\<lambda>q. qn_quiz_id q = sub_quiz_id req) (tbl_question d))))
                          (tbl_partial_answer d') (tbl_result d)
              else tbl_result d) \<and>
           c = (sub_qindex req \<ge> int (length (filter (\<lambda>q. qn_quiz_id q = sub_quiz_id req) (tbl_question d))) - 1) \<and>
           tbl_quiz d' = tbl_quiz d \<and> tbl_question d' = tbl_question d"
  using assms unfolding attempt_quiz_post_def Let_def
  by (auto split: option.splits sum.splits if_splits)

lemma attempt_quiz_post_results:
  "tbl_result (snd (attempt_quiz_post py now d req)) = tbl_result d \<or>
   (\<exists>n as. tbl_result (snd (attempt_quiz_post py now d req)) =
      complete_quiz (sub_quiz_id req) (sub_student req) n as (tbl_result d))"
  unfolding attempt_quiz_post_def Let_def
  by (auto split: option.splits sum.splits if_splits)


lemma find_result_None:
  "find (same_result_key q s) rs = None \<longleftrightarrow> (q, s) \<notin> set (map (\<lambda>r. (r_quiz_id r, r_student r)) rs)"
  by (auto simp: find_None_iff same_result_key_def)

lemma complete_quiz_distinct:
  assumes "distinct (map (\<lambda>r. (r_quiz_id r, r_student r)) rs)"
  shows "distinct (map (\<lambda>r. (r_quiz_id r, r_student r)) (complete_quiz q s n as rs))"
proof (cases "find (same_result_key q s) rs")
  case None
  then have "(q, s) \<notin> set (map (\<lambda>r. (r_quiz_id r, r_student r)) rs)"
    using find_result_None [of q s rs] by blast
  with assms None show ?thesis by (simp add: complete_quiz_def Let_def)
next
  case (Some r)
  with assms show ?thesis by (simp add: complete_quiz_def Let_def)
qed

lemma complete_quiz_existing:
  "\<exists>r\<in>set rs. same_result_key q s r \<Longrightarrow> complete_quiz q s n as rs = rs"
  by (cases "find (same_result_key q s) rs")
     (auto simp: complete_quiz_def Let_def find_None_iff)

lemma complete_quiz_has_row:
  "\<exists>r\<in>set (complete_quiz q s n as rs). same_result_key q s r"
proof (cases "find (same_result_key q s) rs")
  case None
  then show ?thesis by (simp add: complete_quiz_def Let_def same_result_key_def)
next
  case (Some r)
  then have "r \<in> set rs \<and> same_result_key q s r"
    by (auto simp: find_Some_iff)
  with Some show ?thesis by (auto simp: complete_quiz_def Let_def)
qed

lemma reachable_results_distinct:
  "reachable py d \<Longrightarrow> distinct (map (\<lambda>r. (r_quiz_id r, r_student r)) (tbl_result d))"
proof (induction rule: reachable.induct)
  case (initial d)
  then show ?case by simp
next
  case (submit d now req)
  from attempt_quiz_post_results [of py now d req] show ?case
  proof
    assume "tbl_result (snd (attempt_quiz_post py now d req)) = tbl_result d"
    with submit.IH show ?thesis by simp
  next
    assume "\<exists>n as. tbl_result (snd (attempt_quiz_post py now d req)) =
      complete_quiz (sub_quiz_id req) (sub_student req) n as (tbl_result d)"
    then obtain n as where "tbl_result (snd (attempt_quiz_post py now d req)) =
      complete_quiz (sub_quiz_id req) (sub_student req) n as (tbl_result d)" by blast
    with submit.IH show ?thesis by (simp add: complete_quiz_distinct)
  qed
next
  case (clear d quiz_id)
  then show ?case by (simp add: clear_quiz_session_data_def)
next
  case (delete d quiz_id)
  then show ?case
    by (cases "find (\<lambda>z. qz_id z = quiz_id) (tbl_quiz d)")
       (simp_all add: delete_quiz_def distinct_map_filter)
next
  case (clear_student d quiz_id student)
  then show ?case by (simp add: clear_student_quiz_data_def distinct_map_filter)
next
  case (cleanup d cutoff)
  then show ?case by (simp add: cleanup_old_partial_answers_def)
next
  case (author d zs qs)
  then show ?case by simp
qed

lemma distinct_keys_count:
  "distinct (map f xs) \<Longrightarrow> length (filter (\<lambda>x. f x = k) xs) \<le> 1"
  by (induction xs) (auto simp: filter_empty_conv image_iff)

lemma same_result_key_conv:
  "same_result_key q s = (\<lambda>r. (r_quiz_id r, r_student r) = (q, s))"
  by (auto simp: same_result_key_def fun_eq_iff)

text \<open>
  Claim C5. In every reachable state the \<^verbatim>\<open>result\<close> table holds at most one row for each
  (quiz, participant) pair. A processed submission of the last question
  (\<^verbatim>\<open>student_complete\<close> true) leaves a row for the pair in the table, and a submission by a
  participant who already has a row for the quiz leaves the \<^verbatim>\<open>result\<close> table as it is:
  no second row, and the aggregates of the existing row unchanged.
\<close>

theorem session_result_at_most_once:
  "(reachable py d \<longrightarrow>
      distinct (map (\<lambda>r. (r_quiz_id r, r_student r)) (tbl_result d)) \<and>
      length (filter (same_result_key quiz_id student) (tbl_result d)) \<le> 1) \<and>
   (attempt_quiz_post py now d req = (SubmitReply ok True n s, d') \<longrightarrow>
      (\<exists>r\<in>set (tbl_result d'). same_result_key (sub_quiz_id req) (sub_student req) r)) \<and>
   ((\<exists>r\<in>set (tbl_result d). same_result_key (sub_quiz_id req) (sub_student req) r) \<longrightarrow>
      tbl_result (snd (attempt_quiz_post py now d req)) = tbl_result d)"
proof (intro conjI impI)
  assume r: "reachable py d"
  then show "distinct (map (\<lambda>r. (r_quiz_id r, r_student r)) (tbl_result d))"
    by (rule reachable_results_distinct)
  then show "length (filter (same_result_key quiz_id student) (tbl_result d)) \<le> 1"
    unfolding same_result_key_conv by (rule distinct_keys_count)
next
  assume "attempt_quiz_post py now d req = (SubmitReply ok True n s, d')"
  from attempt_quiz_post_processed [OF this]
  have "\<exists>k. tbl_result d' = complete_quiz (sub_quiz_id req) (sub_student req) k
            (tbl_partial_answer d') (tbl_result d)"
    by auto
  then show "\<exists>r\<in>set (tbl_result d'). same_result_key (sub_quiz_id req) (sub_student req) r"
    using complete_quiz_has_row by metis
next
  assume e: "\<exists>r\<in>set (tbl_result d). same_result_key (sub_quiz_id req) (sub_student req) r"
  from attempt_quiz_post_results [of py now d req]
  show "tbl_result (snd (attempt_quiz_post py now d req)) = tbl_result d"
    using complete_quiz_existing [OF e] by auto
qed

theorem session_result_at_most_once_witness:
  "reachable example_py example_db3 \<and>
   tbl_result example_db1 = [] \<and>
   tbl_result example_db2 = [\<lparr> r_quiz_id = 1, r_student = ''ann'', r_score = 1, r_total = 2,
                               r_time_taken = 7, r_total_points = 6 \<rparr>] \<and>
   tbl_result example_db3 = tbl_result example_db2 \<and>
   length (filter (same_result_key 1 ''ann'') (tbl_result example_db3)) \<le> 1"
proof -
  have r0: "reachable example_py example_db"
    by (rule reachable.initial) (simp_all add: example_db_def)
  have r3: "reachable example_py example_db3"
    unfolding example_db3_def example_db2_def example_db1_def
    by (intro reachable.submit r0)
  have t1: "tbl_result example_db1 = []"
    by code_simp
  have t2: "tbl_result example_db2 = [\<lparr> r_quiz_id = 1, r_student = ''ann'', r_score = 1,
              r_total = 2, r_time_taken = 7, r_total_points = 6 \<rparr>]"
    by code_simp
  have e: "\<exists>r\<in>set (tbl_result example_db2).
             same_result_key (sub_quiz_id example_last) (sub_student example_last) r"
    unfolding t2 by code_simp
  have t3: "tbl_result example_db3 = tbl_result example_db2"
    using session_result_at_most_once [of example_py example_db2 _ _ 102 example_last] e
    unfolding example_db3_def by blast
  have c: "length (filter (same_result_key 1 ''ann'') (tbl_result example_db3)) \<le> 1"
    using session_result_at_most_once [of example_py example_db3 1 "''ann''"] r3 by blast
  from r3 t1 t2 t3 c show ?thesis by blast
qed







lemma same_answer_key_erase [simp]:
  "same_answer_key q n s (a\<lparr>pa_points := p\<rparr>) = same_answer_key q n s a"
  by (simp add: same_answer_key_def)








text \<open>A request that fails inside the validator has already committed the deletion: no row
  is left for the triple. This needs a question whose stored correct answers parse to a JSON
  value that cannot be iterated, which the authoring route never writes.\<close>

lemma raised_after_delete:
  "attempt_quiz_post py now d req = (ServerError e, d') \<Longrightarrow>
   filter (same_answer_key (sub_quiz_id req) (sub_question_id req) (sub_student req))
     (tbl_partial_answer d') = []"
  unfolding attempt_quiz_post_def Let_def
  by (auto split: option.splits sum.splits if_splits)






text \<open>The partial-credit branch exists in \<^verbatim>\<open>ScoringService.calculate_points\<close> only, which
  the submission endpoint does not call.\<close>

lemma calculate_points_partial_credit:
  "1 < total_correct \<Longrightarrow> 0 < correct_count \<Longrightarrow>
   calculate_points py True t tlimit ht ''checkbox'' correct_count total_correct
     = py_round1 py (of_int correct_count / of_int total_correct * 1)"
  by (simp add: calculate_points_def)





section \<open>Leaderboards\<close>



lemma take_sort_key_top:
  assumes "a \<in> set (take n (sort_key f xs))" and "b \<in> set xs"
    and "b \<notin> set (take n (sort_key f xs))"
  shows "f a \<le> f b"
proof -
  let ?r = "sort_key f xs"
  have "b \<in> set (take n ?r @ drop n ?r)" using assms(2) by simp
  with assms(3) have b: "b \<in> set (drop n ?r)" by (simp del: append_take_drop_id)
  have "sorted (map f (take n ?r @ drop n ?r))" by simp
  then have "\<forall>x\<in>set (take n ?r). \<forall>y\<in>set (drop n ?r). f x \<le> f y"
    unfolding map_append sorted_append by auto
  with assms(1) b show ?thesis by blast
qed

lemma sorted_take_sort_key: "sorted (map f (take n (sort_key f xs)))"
  by (simp add: take_map [symmetric] sorted_wrt_take)

lemma set_take_sort_key: "set (take n (sort_key f xs)) \<subseteq> set xs"
  using set_take_subset [of n "sort_key f xs"] by simp

lemma set_take_sort_key_all: "length xs \<le> n \<Longrightarrow> set (take n (sort_key f xs)) = set xs"
  by simp

lemma sorted_map_nth:
  "sorted (map f xs) \<Longrightarrow> i < j \<Longrightarrow> j < length xs \<Longrightarrow> f (xs ! i) \<le> f (xs ! j)"
  by (auto simp: sorted_iff_nth_mono dest!: spec [of _ i] spec [of _ j])


lemma get_question_leaderboard_nth:
  assumes "find (\<lambda>z. qz_id z = quiz_id) (tbl_quiz d) = Some qz"
  shows "length (get_question_leaderboard quiz_id question_id d)
           = length (question_leaderboard_answers qz quiz_id question_id d)"
    and "k < length (question_leaderboard_answers qz quiz_id question_id d) \<Longrightarrow>
         get_question_leaderboard quiz_id question_id d ! k =
           \<lparr> ql_rank = int k + 1,
             ql_student = pa_student (question_leaderboard_answers qz quiz_id question_id d ! k),
             ql_time_taken = pa_time_taken (question_leaderboard_answers qz quiz_id question_id d ! k),
             ql_points = pa_points (question_leaderboard_answers qz quiz_id question_id d ! k) \<rparr>"
  using assms by (simp_all add: get_question_leaderboard_def nth_enumerate_eq)

lemma api_question_leaderboard_disabled:
  "find (\<lambda>z. qz_id z = quiz_id) (tbl_quiz d) = None \<or>
   (\<exists>qz. find (\<lambda>z. qz_id z = quiz_id) (tbl_quiz d) = Some qz \<and>
         show_leaderboard_global qz \<noteq> Some True) \<or>
   (\<exists>q. find (\<lambda>q. qn_id q = question_id) (tbl_question d) = Some q \<and> \<not> show_leaderboard q)
   \<Longrightarrow> api_question_leaderboard quiz_id question_id d = []"
  by (auto simp: api_question_leaderboard_def split: option.splits)

lemma api_question_leaderboard_enabled:
  "find (\<lambda>z. qz_id z = quiz_id) (tbl_quiz d) = Some qz \<Longrightarrow>
   show_leaderboard_global qz = Some True \<Longrightarrow>
   find (\<lambda>q. qn_id q = question_id) (tbl_question d) = Some q \<Longrightarrow> show_leaderboard q \<Longrightarrow>
   api_question_leaderboard quiz_id question_id d = get_question_leaderboard quiz_id question_id d"
  by (simp add: api_question_leaderboard_def)

lemma question_leaderboard_answers_length:
  "length (question_leaderboard_answers qz quiz_id question_id d) =
     min 10 (length (filter (\<lambda>a. pa_quiz_id a = quiz_id \<and> pa_question_id a = question_id
                                  \<and> pa_is_correct a) (tbl_partial_answer d)))"
  by (simp add: question_leaderboard_answers_def Let_def min.commute)

lemma question_leaderboard_answers_if_timed:
  "has_timer qz \<Longrightarrow> question_leaderboard_answers qz quiz_id question_id d =
     take 10 (sort_key (\<lambda>a. (pa_time_taken a, pa_submitted_at a))
       (filter (\<lambda>a. pa_quiz_id a = quiz_id \<and> pa_question_id a = question_id
                       \<and> pa_is_correct a) (tbl_partial_answer d)))"
  by (simp add: question_leaderboard_answers_def)

lemma question_leaderboard_answers_if_untimed:
  "\<not> has_timer qz \<Longrightarrow> question_leaderboard_answers qz quiz_id question_id d =
     take 10 (sort_key pa_submitted_at
       (filter (\<lambda>a. pa_quiz_id a = quiz_id \<and> pa_question_id a = question_id
                       \<and> pa_is_correct a) (tbl_partial_answer d)))"
  by (simp add: question_leaderboard_answers_def)

lemma question_leaderboard_answers_set:
  "set (question_leaderboard_answers qz quiz_id question_id d) \<subseteq>
     set (filter (\<lambda>a. pa_quiz_id a = quiz_id \<and> pa_question_id a = question_id
                       \<and> pa_is_correct a) (tbl_partial_answer d))"
proof (cases "has_timer qz")
  case True
  show ?thesis
    unfolding question_leaderboard_answers_if_timed [OF True] by (rule set_take_sort_key)
next
  case False
  show ?thesis
    unfolding question_leaderboard_answers_if_untimed [OF False] by (rule set_take_sort_key)
qed

lemma question_leaderboard_answers_all:
  assumes "length (filter (\<lambda>a. pa_quiz_id a = quiz_id \<and> pa_question_id a = question_id
                       \<and> pa_is_correct a) (tbl_partial_answer d)) \<le> 10"
  shows "set (question_leaderboard_answers qz quiz_id question_id d) =
     set (filter (\<lambda>a. pa_quiz_id a = quiz_id \<and> pa_question_id a = question_id
                       \<and> pa_is_correct a) (tbl_partial_answer d))"
proof (cases "has_timer qz")
  case True
  show ?thesis
    unfolding question_leaderboard_answers_if_timed [OF True]
    using assms by (rule set_take_sort_key_all)
next
  case False
  show ?thesis
    unfolding question_leaderboard_answers_if_untimed [OF False]
    using assms by (rule set_take_sort_key_all)
qed

lemma question_leaderboard_answers_timed:
  assumes "has_timer qz"
  shows "sorted (map (\<lambda>a. (pa_time_taken a, pa_submitted_at a))
                   (question_leaderboard_answers qz quiz_id question_id d))"
    and "a \<in> set (question_leaderboard_answers qz quiz_id question_id d) \<Longrightarrow>
         b \<in> set (filter (\<lambda>a. pa_quiz_id a = quiz_id \<and> pa_question_id a = question_id
                       \<and> pa_is_correct a) (tbl_partial_answer d)) \<Longrightarrow>
         b \<notin> set (question_leaderboard_answers qz quiz_id question_id d) \<Longrightarrow>
         (pa_time_taken a, pa_submitted_at a) \<le> (pa_time_taken b, pa_submitted_at b)"
  unfolding question_leaderboard_answers_if_timed [OF assms]
  by (rule sorted_take_sort_key, rule take_sort_key_top)

lemma question_leaderboard_answers_untimed:
  assumes "\<not> has_timer qz"
  shows "sorted (map pa_submitted_at (question_leaderboard_answers qz quiz_id question_id d))"
    and "a \<in> set (question_leaderboard_answers qz quiz_id question_id d) \<Longrightarrow>
         b \<in> set (filter (\<lambda>a. pa_quiz_id a = quiz_id \<and> pa_question_id a = question_id
                       \<and> pa_is_correct a) (tbl_partial_answer d)) \<Longrightarrow>
         b \<notin> set (question_leaderboard_answers qz quiz_id question_id d) \<Longrightarrow>
         pa_submitted_at a \<le> pa_submitted_at b"
  unfolding question_leaderboard_answers_if_untimed [OF assms]
  by (rule sorted_take_sort_key, rule take_sort_key_top)

lemma lex_pair_le:
  "(a, b) \<le> (c, d) \<longleftrightarrow> a < c \<or> (a = c \<and> b \<le> d)"
  for a c :: int and b d :: rat
  by (auto simp: less_eq_prod_def)


text \<open>
  Claim C9, as amended. The per-question leaderboard of the endpoint is empty when the quiz
  is missing, when its global flag is unset or false, or when the question's own flag is
  false. Otherwise its entries are built, in order, from the rows the query returns: only
  correct answers of the question, all of them when there are at most ten and the first ten
  of the order otherwise, each entry carrying the rank \<open>position + 1\<close>. The order is
  ascending time taken, then ascending submission timestamp, when the quiz has
  per-question timing; it is ascending submission timestamp alone when it has not.
\<close>

theorem question_leaderboard_order:
  "(find (\<lambda>z. qz_id z = quiz_id) (tbl_quiz d) = None \<or>
    (\<exists>qz. find (\<lambda>z. qz_id z = quiz_id) (tbl_quiz d) = Some qz \<and>
          show_leaderboard_global qz \<noteq> Some True) \<or>
    (\<exists>q. find (\<lambda>q. qn_id q = question_id) (tbl_question d) = Some q \<and> \<not> show_leaderboard q)
    \<longrightarrow> api_question_leaderboard quiz_id question_id d = []) \<and>
   (find (\<lambda>z. qz_id z = quiz_id) (tbl_quiz d) = Some qz \<and>
    show_leaderboard_global qz = Some True \<and>
    find (\<lambda>q. qn_id q = question_id) (tbl_question d) = Some q \<and> show_leaderboard q
    \<longrightarrow> (let correct = filter (\<lambda>a. pa_quiz_id a = quiz_id \<and> pa_question_id a = question_id
                                     \<and> pa_is_correct a) (tbl_partial_answer d);
             rows = question_leaderboard_answers qz quiz_id question_id d;
             board = api_question_leaderboard quiz_id question_id d
         in length board = min 10 (length correct) \<and>
            length rows = length board \<and>
            set rows \<subseteq> set correct \<and>
            (length correct \<le> 10 \<longrightarrow> set rows = set correct) \<and>
            (\<forall>k<length board.
               board ! k = \<lparr> ql_rank = int k + 1, ql_student = pa_student (rows ! k),
                             ql_time_taken = pa_time_taken (rows ! k),
                             ql_points = pa_points (rows ! k) \<rparr>) \<and>
            (has_timer qz \<longrightarrow>
               (\<forall>i j. i < j \<and> j < length rows \<longrightarrow>
                  pa_time_taken (rows ! i) < pa_time_taken (rows ! j) \<or>
                  (pa_time_taken (rows ! i) = pa_time_taken (rows ! j) \<and>
                   pa_submitted_at (rows ! i) \<le> pa_submitted_at (rows ! j))) \<and>
               (\<forall>a\<in>set rows. \<forall>b\<in>set correct - set rows.
                  pa_time_taken a < pa_time_taken b \<or>
                  (pa_time_taken a = pa_time_taken b \<and> pa_submitted_at a \<le> pa_submitted_at b))) \<and>
            (\<not> has_timer qz \<longrightarrow>
               (\<forall>i j. i < j \<and> j < length rows \<longrightarrow>
                  pa_submitted_at (rows ! i) \<le> pa_submitted_at (rows ! j)) \<and>
               (\<forall>a\<in>set rows. \<forall>b\<in>set correct - set rows.
                  pa_submitted_at a \<le> pa_submitted_at b))))"
proof (rule conjI)
  show "find (\<lambda>z. qz_id z = quiz_id) (tbl_quiz d) = None \<or>
    (\<exists>qz. find (\<lambda>z. qz_id z = quiz_id) (tbl_quiz d) = Some qz \<and>
          show_leaderboard_global qz \<noteq> Some True) \<or>
    (\<exists>q. find (\<lambda>q. qn_id q = question_id) (tbl_question d) = Some q \<and> \<not> show_leaderboard q)
    \<longrightarrow> api_question_leaderboard quiz_id question_id d = []"
    using api_question_leaderboard_disabled by blast
next
  let ?correct = "filter (\<lambda>a. pa_quiz_id a = quiz_id \<and> pa_question_id a = question_id
                                     \<and> pa_is_correct a) (tbl_partial_answer d)"
  let ?rows = "question_leaderboard_answers qz quiz_id question_id d"
  let ?board = "api_question_leaderboard quiz_id question_id d"
  show "find (\<lambda>z. qz_id z = quiz_id) (tbl_quiz d) = Some qz \<and>
    show_leaderboard_global qz = Some True \<and>
    find (\<lambda>q. qn_id q = question_id) (tbl_question d) = Some q \<and> show_leaderboard q
    \<longrightarrow> (let correct = ?correct; rows = ?rows; board = ?board
         in length board = min 10 (length correct) \<and>
            length rows = length board \<and>
            set rows \<subseteq> set correct \<and>
            (length correct \<le> 10 \<longrightarrow> set rows = set correct) \<and>
            (\<forall>k<length board.
               board ! k = \<lparr> ql_rank = int k + 1, ql_student = pa_student (rows ! k),
                             ql_time_taken = pa_time_taken (rows ! k),
                             ql_points = pa_points (rows ! k) \<rparr>) \<and>
            (has_timer qz \<longrightarrow>
               (\<forall>i j. i < j \<and> j < length rows \<longrightarrow>
                  pa_time_taken (rows ! i) < pa_time_taken (rows ! j) \<or>
                  (pa_time_taken (rows ! i) = pa_time_taken (rows ! j) \<and>
                   pa_submitted_at (rows ! i) \<le> pa_submitted_at (rows ! j))) \<and>
               (\<forall>a\<in>set rows. \<forall>b\<in>set correct - set rows.
                  pa_time_taken a < pa_time_taken b \<or>
                  (pa_time_taken a = pa_time_taken b \<and> pa_submitted_at a \<le> pa_submitted_at b))) \<and>
            (\<not> has_timer qz \<longrightarrow>
               (\<forall>i j. i < j \<and> j < length rows \<longrightarrow>
                  pa_submitted_at (rows ! i) \<le> pa_submitted_at (rows ! j)) \<and>
               (\<forall>a\<in>set rows. \<forall>b\<in>set correct - set rows.
                  pa_submitted_at a \<le> pa_submitted_at b)))"
  proof
    assume h: "find (\<lambda>z. qz_id z = quiz_id) (tbl_quiz d) = Some qz \<and>
      show_leaderboard_global qz = Some True \<and>
      find (\<lambda>q. qn_id q = question_id) (tbl_question d) = Some q \<and> show_leaderboard q"
    then have fz: "find (\<lambda>z. qz_id z = quiz_id) (tbl_quiz d) = Some qz" by blast
    from h have board: "?board = get_question_leaderboard quiz_id question_id d"
      using api_question_leaderboard_enabled by blast
    have l2: "length ?rows = length ?board"
      unfolding board using get_question_leaderboard_nth(1) [OF fz] by simp
    have l1: "length ?board = min 10 (length ?correct)"
      unfolding l2 [symmetric] by (rule question_leaderboard_answers_length)
    have s1: "set ?rows \<subseteq> set ?correct" by (rule question_leaderboard_answers_set)
    have s2: "length ?correct \<le> 10 \<longrightarrow> set ?rows = set ?correct"
      using question_leaderboard_answers_all by blast
    have e: "\<forall>k<length ?board.
               ?board ! k = \<lparr> ql_rank = int k + 1, ql_student = pa_student (?rows ! k),
                             ql_time_taken = pa_time_taken (?rows ! k),
                             ql_points = pa_points (?rows ! k) \<rparr>"
      unfolding l2 [symmetric] unfolding board
      using get_question_leaderboard_nth(2) [OF fz] by blast
    have t: "has_timer qz \<longrightarrow>
               (\<forall>i j. i < j \<and> j < length ?rows \<longrightarrow>
                  pa_time_taken (?rows ! i) < pa_time_taken (?rows ! j) \<or>
                  (pa_time_taken (?rows ! i) = pa_time_taken (?rows ! j) \<and>
                   pa_submitted_at (?rows ! i) \<le> pa_submitted_at (?rows ! j))) \<and>
               (\<forall>a\<in>set ?rows. \<forall>b\<in>set ?correct - set ?rows.
                  pa_time_taken a < pa_time_taken b \<or>
                  (pa_time_taken a = pa_time_taken b \<and> pa_submitted_at a \<le> pa_submitted_at b))"
    proof (intro impI conjI allI ballI)
      fix i j assume ht: "has_timer qz" and ij: "i < j \<and> j < length ?rows"
      from sorted_map_nth [OF question_leaderboard_answers_timed(1) [OF ht]] ij
      have "(pa_time_taken (?rows ! i), pa_submitted_at (?rows ! i))
              \<le> (pa_time_taken (?rows ! j), pa_submitted_at (?rows ! j))" by blast
      then show "pa_time_taken (?rows ! i) < pa_time_taken (?rows ! j) \<or>
                  (pa_time_taken (?rows ! i) = pa_time_taken (?rows ! j) \<and>
                   pa_submitted_at (?rows ! i) \<le> pa_submitted_at (?rows ! j))"
        by (simp only: lex_pair_le)
    next
      fix a b assume ht: "has_timer qz" and a: "a \<in> set ?rows"
        and b: "b \<in> set ?correct - set ?rows"
      from b have "b \<in> set ?correct" "b \<notin> set ?rows" by blast+
      from question_leaderboard_answers_timed(2) [OF ht a this]
      show "pa_time_taken a < pa_time_taken b \<or>
                  (pa_time_taken a = pa_time_taken b \<and> pa_submitted_at a \<le> pa_submitted_at b)"
        by (simp only: lex_pair_le)
    qed
    have u: "\<not> has_timer qz \<longrightarrow>
               (\<forall>i j. i < j \<and> j < length ?rows \<longrightarrow>
                  pa_submitted_at (?rows ! i) \<le> pa_submitted_at (?rows ! j)) \<and>
               (\<forall>a\<in>set ?rows. \<forall>b\<in>set ?correct - set ?rows.
                  pa_submitted_at a \<le> pa_submitted_at b)"
    proof (intro impI conjI allI ballI)
      fix i j assume ht: "\<not> has_timer qz" and ij: "i < j \<and> j < length ?rows"
      from sorted_map_nth [OF question_leaderboard_answers_untimed(1) [OF ht]] ij
      show "pa_submitted_at (?rows ! i) \<le> pa_submitted_at (?rows ! j)" by blast
    next
      fix a b assume ht: "\<not> has_timer qz" and a: "a \<in> set ?rows"
        and b: "b \<in> set ?correct - set ?rows"
      from b have "b \<in> set ?correct" "b \<notin> set ?rows" by blast+
      from question_leaderboard_answers_untimed(2) [OF ht a this]
      show "pa_submitted_at a \<le> pa_submitted_at b" .
    qed
    show "let correct = ?correct; rows = ?rows; board = ?board
         in length board = min 10 (length correct) \<and>
            length rows = length board \<and>
            set rows \<subseteq> set correct \<and>
            (length correct \<le> 10 \<longrightarrow> set rows = set correct) \<and>
            (\<forall>k<length board.
               board ! k = \<lparr> ql_rank = int k + 1, ql_student = pa_student (rows ! k),
                             ql_time_taken = pa_time_taken (rows ! k),
                             ql_points = pa_points (rows ! k) \<rparr>) \<and>
            (has_timer qz \<longrightarrow>
               (\<forall>i j. i < j \<and> j < length rows \<longrightarrow>
                  pa_time_taken (rows ! i) < pa_time_taken (rows ! j) \<or>
                  (pa_time_taken (rows ! i) = pa_time_taken (rows ! j) \<and>
                   pa_submitted_at (rows ! i) \<le> pa_submitted_at (rows ! j))) \<and>
               (\<forall>a\<in>set rows. \<forall>b\<in>set correct - set rows.
                  pa_time_taken a < pa_time_taken b \<or>
                  (pa_time_taken a = pa_time_taken b \<and> pa_submitted_at a \<le> pa_submitted_at b))) \<and>
            (\<not> has_timer qz \<longrightarrow>
               (\<forall>i j. i < j \<and> j < length rows \<longrightarrow>
                  pa_submitted_at (rows ! i) \<le> pa_submitted_at (rows ! j)) \<and>
               (\<forall>a\<in>set rows. \<forall>b\<in>set correct - set rows.
                  pa_submitted_at a \<le> pa_submitted_at b))"
      unfolding Let_def using l1 l2 s1 s2 e t u by (intro conjI)
  qed
qed

text \<open>The claim as stated (ascending time taken in every quiz) fails in a quiz without
  per-question timing: the slower answer, submitted first, gets rank 1.\<close>

theorem question_leaderboard_counterexample:
  "has_timer example_untimed_quiz = False \<and>
   api_question_leaderboard 2 9 example_board_db =
     [\<lparr> ql_rank = 1, ql_student = ''ann'', ql_time_taken = 50, ql_points = 4 \<rparr>,
      \<lparr> ql_rank = 2, ql_student = ''bob'', ql_time_taken = 40, ql_points = 3 \<rparr>] \<and>
   \<not> sorted (map ql_time_taken (api_question_leaderboard 2 9 example_board_db))"
proof -
  have a: "has_timer example_untimed_quiz = False" by code_simp
  have b: "api_question_leaderboard 2 9 example_board_db =
     [\<lparr> ql_rank = 1, ql_student = ''ann'', ql_time_taken = 50, ql_points = 4 \<rparr>,
      \<lparr> ql_rank = 2, ql_student = ''bob'', ql_time_taken = 40, ql_points = 3 \<rparr>]"
    by code_simp
  have c: "\<not> sorted (map ql_time_taken (api_question_leaderboard 2 9 example_board_db))"
    unfolding b by simp
  from a b c show ?thesis by blast
qed

theorem question_leaderboard_order_witness:
  "find (\<lambda>z. qz_id z = 1) (tbl_quiz example_board_db) = Some example_quiz \<and>
   show_leaderboard_global example_quiz = Some True \<and>
   find (\<lambda>q. qn_id q = 7) (tbl_question example_board_db) = Some example_checkbox \<and>
   show_leaderboard example_checkbox \<and> has_timer example_quiz \<and>
   api_question_leaderboard 1 7 example_board_db =
     [\<lparr> ql_rank = 1, ql_student = ''bob'', ql_time_taken = 3, ql_points = 2 \<rparr>,
      \<lparr> ql_rank = 2, ql_student = ''ann'', ql_time_taken = 5, ql_points = 2 \<rparr>,
      \<lparr> ql_rank = 3, ql_student = ''eve'', ql_time_taken = 7, ql_points = 2 \<rparr>,
      \<lparr> ql_rank = 4, ql_student = ''dee'', ql_time_taken = 9, ql_points = 2 \<rparr>] \<and>
   length (api_question_leaderboard 1 7 example_board_db) =
     min 10 (length (filter (\<lambda>a. pa_quiz_id a = 1 \<and> pa_question_id a = 7 \<and> pa_is_correct a)
                       (tbl_partial_answer example_board_db))) \<and>
   find (\<lambda>z. qz_id z = 3) (tbl_quiz example_board_db) = None \<and>
   api_question_leaderboard 3 7 example_board_db = []"
proof -
  have fz: "find (\<lambda>z. qz_id z = 1) (tbl_quiz example_board_db) = Some example_quiz"
    by code_simp
  have g: "show_leaderboard_global example_quiz = Some True" by code_simp
  have fq: "find (\<lambda>q. qn_id q = 7) (tbl_question example_board_db) = Some example_checkbox"
    by code_simp
  have sq: "show_leaderboard example_checkbox" by code_simp
  have ht: "has_timer example_quiz" by code_simp
  have b: "api_question_leaderboard 1 7 example_board_db =
     [\<lparr> ql_rank = 1, ql_student = ''bob'', ql_time_taken = 3, ql_points = 2 \<rparr>,
      \<lparr> ql_rank = 2, ql_student = ''ann'', ql_time_taken = 5, ql_points = 2 \<rparr>,
      \<lparr> ql_rank = 3, ql_student = ''eve'', ql_time_taken = 7, ql_points = 2 \<rparr>,
      \<lparr> ql_rank = 4, ql_student = ''dee'', ql_time_taken = 9, ql_points = 2 \<rparr>]"
    by code_simp
  have n: "find (\<lambda>z. qz_id z = 3) (tbl_quiz example_board_db) = None" by code_simp
  from question_leaderboard_order [of 1 example_board_db 7 example_quiz example_checkbox]
    fz g fq sq
  have l: "length (api_question_leaderboard 1 7 example_board_db) =
     min 10 (length (filter (\<lambda>a. pa_quiz_id a = 1 \<and> pa_question_id a = 7 \<and> pa_is_correct a)
                       (tbl_partial_answer example_board_db)))"
    unfolding Let_def by blast
  from question_leaderboard_order [of 3 example_board_db 7] n
  have e: "api_question_leaderboard 3 7 example_board_db = []" by blast
  from fz g fq sq ht b l n e show ?thesis by blast
qed

lemma add_ranks_fst: "map fst (add_ranks xs) = map (\<lambda>i. int i + 1) [0..<length xs]"
  by (simp add: add_ranks_def)

lemma add_ranks_snd: "map snd (add_ranks xs) = xs"
  by (simp add: add_ranks_def)

lemma length_add_ranks: "length (add_ranks xs) = length xs"
  by (simp add: add_ranks_def)

lemma add_ranks_nth: "k < length xs \<Longrightarrow> add_ranks xs ! k = (int k + 1, xs ! k)"
  by (simp add: add_ranks_def)

lemma payload_key_le:
  "(- p, - c, t) \<le> (- p', - c', t') \<longleftrightarrow>
     p' < p \<or> (p = p' \<and> (c' < c \<or> (c = c' \<and> t \<le> t')))"
  for p p' :: rat and c c' t t' :: int
  by (auto simp: less_eq_prod_def)

lemma sort_payload_ordered:
  assumes "i < j" "j < length es"
  shows "lb_points (sort_payload es ! j) < lb_points (sort_payload es ! i) \<or>
         (lb_points (sort_payload es ! i) = lb_points (sort_payload es ! j) \<and>
          (lb_correct (sort_payload es ! j) < lb_correct (sort_payload es ! i) \<or>
           (lb_correct (sort_payload es ! i) = lb_correct (sort_payload es ! j) \<and>
            lb_time (sort_payload es ! i) \<le> lb_time (sort_payload es ! j))))"
proof -
  let ?k = "\<lambda>e. (- lb_points e, - lb_correct e, lb_time e)"
  have s: "sorted (map ?k (sort_payload es))" by (simp add: sort_payload_def)
  have l: "j < length (sort_payload es)" using assms(2) by (simp add: sort_payload_def)
  have "?k (sort_payload es ! i) \<le> ?k (sort_payload es ! j)"
    using s assms(1) l by (rule sorted_map_nth)
  then show ?thesis by (simp only: payload_key_le)
qed

lemma set_sort_payload [simp]: "set (sort_payload es) = set es"
  by (simp add: sort_payload_def)

lemma length_sort_payload [simp]: "length (sort_payload es) = length es"
  by (simp add: sort_payload_def)

lemma distinct_names_sort_payload:
  "distinct (map lb_name (sort_payload es)) = distinct (map lb_name es)"
  by (simp add: distinct_map sort_payload_def)

lemma payload_entries_names:
  "map lb_name (payload_entries quiz_id d) =
     remdups (map pa_student (filter (\<lambda>a. pa_quiz_id a = quiz_id) (tbl_partial_answer d)))"
  by (simp add: payload_entries_def answers_by_student_def Let_def comp_def)

lemma payload_entries_aggregates:
  assumes "e \<in> set (payload_entries quiz_id d)"
  shows "lb_points e = sum_list (map pa_points
            (filter (\<lambda>a. pa_student a = lb_name e)
               (filter (\<lambda>a. pa_quiz_id a = quiz_id) (tbl_partial_answer d))))"
    and "lb_correct e = int (length (filter pa_is_correct
            (filter (\<lambda>a. pa_student a = lb_name e)
               (filter (\<lambda>a. pa_quiz_id a = quiz_id) (tbl_partial_answer d)))))"
    and "lb_time e = sum_list (map pa_time_taken
            (filter (\<lambda>a. pa_student a = lb_name e)
               (filter (\<lambda>a. pa_quiz_id a = quiz_id) (tbl_partial_answer d))))"
proof -
  have c: "sum_list (map (\<lambda>a. if pa_is_correct a then 1 else 0) g)
             = int (length (filter pa_is_correct g))" for g :: "partial_answer list"
    by (induction g) simp_all
  from assms obtain s where
    "e = \<lparr> lb_name = s,
           lb_points = sum_list (map pa_points (filter (\<lambda>a. pa_student a = s)
               (filter (\<lambda>a. pa_quiz_id a = quiz_id) (tbl_partial_answer d)))),
           lb_correct = sum_list (map (\<lambda>a. if pa_is_correct a then 1 else 0)
               (filter (\<lambda>a. pa_student a = s)
               (filter (\<lambda>a. pa_quiz_id a = quiz_id) (tbl_partial_answer d)))),
           lb_avg_time = py_int (of_int (sum_list (map pa_time_taken (filter (\<lambda>a. pa_student a = s)
               (filter (\<lambda>a. pa_quiz_id a = quiz_id) (tbl_partial_answer d)))))
              / of_nat (length (filter (\<lambda>a. pa_student a = s)
               (filter (\<lambda>a. pa_quiz_id a = quiz_id) (tbl_partial_answer d))))),
           lb_time = sum_list (map pa_time_taken (filter (\<lambda>a. pa_student a = s)
               (filter (\<lambda>a. pa_quiz_id a = quiz_id) (tbl_partial_answer d)))),
           lb_answered = int (length (filter (\<lambda>a. pa_student a = s)
               (filter (\<lambda>a. pa_quiz_id a = quiz_id) (tbl_partial_answer d)))),
           lb_total_questions =
             int (length (filter (\<lambda>q. qn_quiz_id q = quiz_id) (tbl_question d))) \<rparr>"
    unfolding payload_entries_def answers_by_student_def Let_def by auto
  then show "lb_points e = sum_list (map pa_points
            (filter (\<lambda>a. pa_student a = lb_name e)
               (filter (\<lambda>a. pa_quiz_id a = quiz_id) (tbl_partial_answer d))))"
    and "lb_correct e = int (length (filter pa_is_correct
            (filter (\<lambda>a. pa_student a = lb_name e)
               (filter (\<lambda>a. pa_quiz_id a = quiz_id) (tbl_partial_answer d)))))"
    and "lb_time e = sum_list (map pa_time_taken
            (filter (\<lambda>a. pa_student a = lb_name e)
               (filter (\<lambda>a. pa_quiz_id a = quiz_id) (tbl_partial_answer d))))"
    by (simp_all add: c)
qed


text \<open>The builder of \<^verbatim>\<open>app/routes/leaderboard_service.py\<close> does what the specification
  says of the full leaderboard: empty when the quiz is missing or its global flag is unset,
  else one entry per participant with the sums over that participant's answers, ordered by
  descending points, then descending correct count, then ascending total time, with the
  ranks \<open>1, 2, \<dots>\<close> assigned after sorting.\<close>

lemma build_leaderboard_payload_routes_disabled:
  "find (\<lambda>z. qz_id z = quiz_id) (tbl_quiz d) = None \<or>
   (\<exists>qz. find (\<lambda>z. qz_id z = quiz_id) (tbl_quiz d) = Some qz \<and>
         show_leaderboard_global qz \<noteq> Some True)
   \<Longrightarrow> build_leaderboard_payload_routes quiz_id d = []"
  by (auto simp: build_leaderboard_payload_routes_def split: option.splits)

lemma build_leaderboard_payload_routes_enabled:
  assumes "find (\<lambda>z. qz_id z = quiz_id) (tbl_quiz d) = Some qz"
    and "show_leaderboard_global qz = Some True"
  shows "build_leaderboard_payload_routes quiz_id d
           = add_ranks (sort_payload (payload_entries quiz_id d))"
  using assms by (simp add: build_leaderboard_payload_routes_def)

lemma build_leaderboard_payload_routes_sorted:
  assumes "find (\<lambda>z. qz_id z = quiz_id) (tbl_quiz d) = Some qz"
    and "show_leaderboard_global qz = Some True"
  shows "map fst (build_leaderboard_payload_routes quiz_id d)
           = map (\<lambda>i. int i + 1) [0..<length (build_leaderboard_payload_routes quiz_id d)]"
    and "distinct (map (\<lambda>re. lb_name (snd re)) (build_leaderboard_payload_routes quiz_id d))"
    and "set (map (\<lambda>re. lb_name (snd re)) (build_leaderboard_payload_routes quiz_id d))
           = pa_student ` {a \<in> set (tbl_partial_answer d). pa_quiz_id a = quiz_id}"
    and "i < j \<Longrightarrow> j < length (build_leaderboard_payload_routes quiz_id d) \<Longrightarrow>
         (let a = snd (build_leaderboard_payload_routes quiz_id d ! i);
              b = snd (build_leaderboard_payload_routes quiz_id d ! j)
          in lb_points b < lb_points a \<or>
             (lb_points a = lb_points b \<and>
              (lb_correct b < lb_correct a \<or>
               (lb_correct a = lb_correct b \<and> lb_time a \<le> lb_time b))))"
    and "re \<in> set (build_leaderboard_payload_routes quiz_id d) \<Longrightarrow>
         lb_points (snd re) = sum_list (map pa_points
            (filter (\<lambda>a. pa_student a = lb_name (snd re))
               (filter (\<lambda>a. pa_quiz_id a = quiz_id) (tbl_partial_answer d)))) \<and>
         lb_correct (snd re) = int (length (filter pa_is_correct
            (filter (\<lambda>a. pa_student a = lb_name (snd re))
               (filter (\<lambda>a. pa_quiz_id a = quiz_id) (tbl_partial_answer d))))) \<and>
         lb_time (snd re) = sum_list (map pa_time_taken
            (filter (\<lambda>a. pa_student a = lb_name (snd re))
               (filter (\<lambda>a. pa_quiz_id a = quiz_id) (tbl_partial_answer d))))"
proof -
  let ?es = "payload_entries quiz_id d"
  let ?b = "build_leaderboard_payload_routes quiz_id d"
  have b: "?b = add_ranks (sort_payload ?es)"
    using assms by (rule build_leaderboard_payload_routes_enabled)
  have len: "length ?b = length ?es" unfolding b by (simp add: length_add_ranks)
  have snd: "map snd ?b = sort_payload ?es" unfolding b by (rule add_ranks_snd)
  have names: "map (\<lambda>re. lb_name (snd re)) ?b = map lb_name (sort_payload ?es)"
    unfolding snd [symmetric] by (simp add: comp_def)
  show "map fst ?b = map (\<lambda>i. int i + 1) [0..<length ?b]"
    unfolding b by (simp add: add_ranks_fst length_add_ranks)
  show "distinct (map (\<lambda>re. lb_name (snd re)) ?b)"
    unfolding names distinct_names_sort_payload payload_entries_names by simp
  have "set (map lb_name (sort_payload ?es)) = set (map lb_name ?es)" by simp
  then show "set (map (\<lambda>re. lb_name (snd re)) ?b)
           = pa_student ` {a \<in> set (tbl_partial_answer d). pa_quiz_id a = quiz_id}"
    unfolding names payload_entries_names by auto
  show "let a = snd (?b ! i); b = snd (?b ! j)
          in lb_points b < lb_points a \<or>
             (lb_points a = lb_points b \<and>
              (lb_correct b < lb_correct a \<or>
               (lb_correct a = lb_correct b \<and> lb_time a \<le> lb_time b)))"
    if ij: "i < j" "j < length ?b"
  proof -
    from ij len have j: "j < length ?es" and i: "i < length ?es" by simp_all
    have "snd (?b ! i) = sort_payload ?es ! i" "snd (?b ! j) = sort_payload ?es ! j"
      unfolding b using i j by (simp_all add: add_ranks_nth)
    then show ?thesis
      unfolding Let_def using sort_payload_ordered [OF ij(1) j] by simp
  qed
  show "lb_points (snd re) = sum_list (map pa_points
            (filter (\<lambda>a. pa_student a = lb_name (snd re))
               (filter (\<lambda>a. pa_quiz_id a = quiz_id) (tbl_partial_answer d)))) \<and>
         lb_correct (snd re) = int (length (filter pa_is_correct
            (filter (\<lambda>a. pa_student a = lb_name (snd re))
               (filter (\<lambda>a. pa_quiz_id a = quiz_id) (tbl_partial_answer d))))) \<and>
         lb_time (snd re) = sum_list (map pa_time_taken
            (filter (\<lambda>a. pa_student a = lb_name (snd re))
               (filter (\<lambda>a. pa_quiz_id a = quiz_id) (tbl_partial_answer d))))"
    if "re \<in> set ?b"
  proof -
    from that have "snd re \<in> set (map snd ?b)" by simp
    then have "snd re \<in> set ?es" unfolding snd by simp
    then show ?thesis using payload_entries_aggregates by blast
  qed
qed

text \<open>
  Claim C1. The builder the application runs (\<^verbatim>\<open>app/services/leaderboard_service.py\<close>,
  imported by the routes) at a database with two participants of equal points and equal
  correct counts, \<open>amy\<close> with total time 50 and \<open>ben\<close> with total time 40: it lists the
  slower \<open>amy\<close> first, its rows carry no rank, and it returns the same rows when the
  quiz-global flag is unset. The builder in \<^verbatim>\<open>app/routes/leaderboard_service.py\<close> ranks
  \<open>ben\<close> first on the same database and returns the empty list when the flag is unset.
\<close>

theorem full_leaderboard_builders:
  "build_leaderboard_payload 1 example_totals_db =
     [\<lparr> pl_student = ''amy'', pl_points = 10, pl_correct = 3, pl_incorrect = 0,
        pl_time = 50, pl_total = 3 \<rparr>,
      \<lparr> pl_student = ''ben'', pl_points = 10, pl_correct = 3, pl_incorrect = 0,
        pl_time = 40, pl_total = 3 \<rparr>] \<and>
   api_leaderboard 1 example_totals_db = build_leaderboard_payload 1 example_totals_db \<and>
   map show_leaderboard_global (tbl_quiz example_hidden_db) = [None] \<and>
   build_leaderboard_payload 1 example_hidden_db =
     build_leaderboard_payload 1 example_totals_db \<and>
   build_leaderboard_payload_routes 1 example_totals_db =
     [(1, \<lparr> lb_name = ''ben'', lb_points = 10, lb_correct = 3, lb_avg_time = 13,
           lb_time = 40, lb_answered = 3, lb_total_questions = 3 \<rparr>),
      (2, \<lparr> lb_name = ''amy'', lb_points = 10, lb_correct = 3, lb_avg_time = 16,
           lb_time = 50, lb_answered = 3, lb_total_questions = 3 \<rparr>)] \<and>
   build_leaderboard_payload_routes 1 example_hidden_db = []"
proof -
  have a: "build_leaderboard_payload 1 example_totals_db =
     [\<lparr> pl_student = ''amy'', pl_points = 10, pl_correct = 3, pl_incorrect = 0,
        pl_time = 50, pl_total = 3 \<rparr>,
      \<lparr> pl_student = ''ben'', pl_points = 10, pl_correct = 3, pl_incorrect = 0,
        pl_time = 40, pl_total = 3 \<rparr>]"
    by code_simp
  have b: "api_leaderboard 1 example_totals_db = build_leaderboard_payload 1 example_totals_db"
    by code_simp
  have c: "map show_leaderboard_global (tbl_quiz example_hidden_db) = [None]"
    by code_simp
  have d: "build_leaderboard_payload 1 example_hidden_db =
     build_leaderboard_payload 1 example_totals_db"
    by code_simp
  have e: "build_leaderboard_payload_routes 1 example_totals_db =
     [(1, \<lparr> lb_name = ''ben'', lb_points = 10, lb_correct = 3, lb_avg_time = 13,
           lb_time = 40, lb_answered = 3, lb_total_questions = 3 \<rparr>),
      (2, \<lparr> lb_name = ''amy'', lb_points = 10, lb_correct = 3, lb_avg_time = 16,
           lb_time = 50, lb_answered = 3, lb_total_questions = 3 \<rparr>)]"
    by code_simp
  have f: "build_leaderboard_payload_routes 1 example_hidden_db = []"
    by code_simp
  from a b c d e f show ?thesis by (intro conjI)
qed

section \<open>Overall timer\<close>

lemma py_int_of_int [simp]: "py_int (of_int n) = n"
  by (simp add: py_int_def)

text \<open>The host view subtracts the accumulated pause; for whole-second timestamps it is the
  formula of the specification.\<close>

lemma live_control_remaining:
  assumes "has_timer qz" "is_active qz" "st (qz_id qz) = Some s" "overall_timer qz = Some m"
    "0 < m" "overall_started_at s = Some t0" "t0 \<noteq> 0"
  shows "snd (live_control_timer qz st now)
           = max 0 (m * 60 - py_int (now - t0 - of_int (paused_seconds qz)))"
  using assms by (simp add: live_control_timer_def overall_timer_enabled_def Let_def)

lemma py_int_diff [simp]: "py_int (of_int a - of_int b) = a - b"
  by (simp flip: of_int_diff)

lemma py_int_diff3 [simp]: "py_int (of_int a - of_int b - of_int c) = a - b - c"
  by (simp flip: of_int_diff)

lemma live_control_remaining_seconds:
  assumes "has_timer qz" "is_active qz" "st (qz_id qz) = Some s" "overall_timer qz = Some m"
    "0 < m" "overall_started_at s = Some (of_int t0)" "t0 \<noteq> 0"
  shows "snd (live_control_timer qz st (of_int now))
           = max 0 (m * 60 - (now - t0 - paused_seconds qz))"
  using assms by (simp add: live_control_timer_def overall_timer_enabled_def Let_def)

text \<open>The participant view does not read \<^verbatim>\<open>paused_seconds\<close>.\<close>

lemma attempt_quiz_remaining_seconds:
  assumes "has_timer qz" "st (qz_id qz) = Some s" "overall_timer qz = Some m" "m \<noteq> 0"
    "overall_started_at s = Some (of_int t0)"
  shows "attempt_quiz_remaining qz st (of_int now) = Some (max 0 (m * 60 - (now - t0)))"
  using assms by (simp add: attempt_quiz_remaining_def Let_def)

text \<open>
  Claim C2. The timed quiz has a one-minute overall timer started at time 1000 and 30
  accumulated paused seconds. At time 1050 the formula of the claim gives
  \<open>max(0, 60 - (1050 - 1000 - 30)) = 40\<close>. The host's live-control view reports 40; the
  participant's quiz view reports 10.
\<close>

theorem remaining_time_views:
  "has_timer example_quiz \<and> is_active example_quiz \<and> \<not> is_paused example_quiz \<and>
   overall_timer example_quiz = Some 1 \<and> paused_seconds example_quiz = 30 \<and>
   map_option overall_started_at (example_state (qz_id example_quiz)) = Some (Some 1000) \<and>
   max 0 (1 * 60 - (1050 - 1000 - 30)) = (40 :: int) \<and>
   live_control_timer example_quiz example_state 1050 = (20, 40) \<and>
   attempt_quiz_remaining example_quiz example_state 1050 = Some 10"
proof -
  have q: "has_timer example_quiz \<and> is_active example_quiz \<and> \<not> is_paused example_quiz \<and>
   overall_timer example_quiz = Some 1 \<and> paused_seconds example_quiz = 30"
    by (simp add: example_quiz_def)
  have s: "map_option overall_started_at (example_state (qz_id example_quiz)) = Some (Some 1000)"
    by (simp add: example_state_def example_quiz_def)
  have f: "max 0 (1 * 60 - (1050 - 1000 - 30)) = (40 :: int)" by simp
  have h: "live_control_timer example_quiz example_state 1050 = (20, 40)"
    by (simp add: live_control_timer_def overall_timer_enabled_def example_state_def
        example_quiz_def py_int_def)
  have p: "attempt_quiz_remaining example_quiz example_state 1050 = Some 10"
    by (simp add: attempt_quiz_remaining_def example_state_def example_quiz_def py_int_def)
  from q s f h p show ?thesis by blast
qed

section \<open>Advancing the question\<close>

lemma admin_next_question_at_end:
  assumes "int (length (filter (\<lambda>q. qn_quiz_id q = quiz_id) (tbl_question d))) - 1
             \<le> qindex_of st quiz_id"
  shows "snd (admin_next_question d st quiz_id) = [(Quiz_finished, Room quiz_id)]"
    and "qindex_of (fst (admin_next_question d st quiz_id)) quiz_id = qindex_of st quiz_id"
  using assms
  by (auto simp: admin_next_question_def qindex_of_def Let_def split: option.splits)

lemma admin_next_question_before_end:
  assumes "qindex_of st quiz_id
             < int (length (filter (\<lambda>q. qn_quiz_id q = quiz_id) (tbl_question d))) - 1"
  shows "snd (admin_next_question d st quiz_id)
           = [(Load_next_question (qindex_of st quiz_id + 1) quiz_id, Room quiz_id)]"
    and "qindex_of (fst (admin_next_question d st quiz_id)) quiz_id = qindex_of st quiz_id + 1"
  using assms
  by (auto simp: admin_next_question_def qindex_of_def Let_def split: option.splits)

lemma admin_next_question_in_range:
  assumes "(Load_next_question i q, r) \<in> set (snd (admin_next_question d st quiz_id))"
  shows "i < int (length (filter (\<lambda>q. qn_quiz_id q = quiz_id) (tbl_question d)))"
proof (cases "qindex_of st quiz_id
             < int (length (filter (\<lambda>q. qn_quiz_id q = quiz_id) (tbl_question d))) - 1")
  case True
  from assms show ?thesis
    unfolding admin_next_question_before_end(1) [OF True] using True by simp
next
  case False
  then have e: "int (length (filter (\<lambda>q. qn_quiz_id q = quiz_id) (tbl_question d))) - 1
             \<le> qindex_of st quiz_id" by simp
  from assms show ?thesis
    unfolding admin_next_question_at_end(1) [OF e] by simp
qed

lemma admin_next_question_keeps_range:
  assumes "0 \<le> qindex_of st quiz_id"
    and "qindex_of st quiz_id
           \<le> int (length (filter (\<lambda>q. qn_quiz_id q = quiz_id) (tbl_question d))) - 1"
  shows "0 \<le> qindex_of (fst (admin_next_question d st quiz_id)) quiz_id \<and>
         qindex_of (fst (admin_next_question d st quiz_id)) quiz_id
           \<le> int (length (filter (\<lambda>q. qn_quiz_id q = quiz_id) (tbl_question d))) - 1"
proof (cases "qindex_of st quiz_id
             < int (length (filter (\<lambda>q. qn_quiz_id q = quiz_id) (tbl_question d))) - 1")
  case True
  show ?thesis
    unfolding admin_next_question_before_end(2) [OF True] using True assms by simp
next
  case False
  then have "int (length (filter (\<lambda>q. qn_quiz_id q = quiz_id) (tbl_question d))) - 1
             \<le> qindex_of st quiz_id" by simp
  from admin_next_question_at_end(2) [OF this] show ?thesis using assms by simp
qed

text \<open>Across every run of advance events through the handler of \<^verbatim>\<open>quiz_events.py\<close> the
  index stays within \<open>0..n-1\<close>.\<close>

lemma advance_times_in_range:
  assumes "0 \<le> qindex_of st quiz_id"
    and "qindex_of st quiz_id
           \<le> int (length (filter (\<lambda>q. qn_quiz_id q = quiz_id) (tbl_question d))) - 1"
  shows "0 \<le> qindex_of (advance_times k d st quiz_id) quiz_id \<and>
         qindex_of (advance_times k d st quiz_id) quiz_id
           \<le> int (length (filter (\<lambda>q. qn_quiz_id q = quiz_id) (tbl_question d))) - 1"
  using assms
proof (induction k arbitrary: st)
  case 0
  then show ?case by simp
next
  case (Suc k)
  from admin_next_question_keeps_range [OF Suc.prems]
  have a: "0 \<le> qindex_of (fst (admin_next_question d st quiz_id)) quiz_id"
    and b: "qindex_of (fst (admin_next_question d st quiz_id)) quiz_id
           \<le> int (length (filter (\<lambda>q. qn_quiz_id q = quiz_id) (tbl_question d))) - 1"
    by blast+
  from Suc.IH [OF a b] show ?case by simp
qed



end
